theory Spec2Isabelle
  imports Complex_Main
begin

section \<open>Two-dimensional arrays\<close>

text \<open>
  The notebooks hold their data in two-dimensional NumPy arrays. An array is modelled by
  its number of columns and the list of its rows, so that an array with no row keeps its
  column count, as NumPy's shape does. An entry is the real number its float64 value
  denotes. NumPy's arithmetic on entries rounds, so it is not the arithmetic of the reals:
  it is a parameter of every definition that computes with entries.
\<close>

record float_ops =
  fl_add :: "real \<Rightarrow> real \<Rightarrow> real"
  fl_sub :: "real \<Rightarrow> real \<Rightarrow> real"
  fl_mul :: "real \<Rightarrow> real \<Rightarrow> real"
  fl_dot :: "real list \<Rightarrow> real list \<Rightarrow> real"
  fl_sum :: "real list \<Rightarrow> real"

datatype error = AssertionError string | ValueError | IndexError | NameError string | TypeError

datatype 'a array2 = Array2 (ncols: nat) (rows: "'a list list")

definition shape :: "'a array2 \<Rightarrow> nat \<times> nat" where
  "shape X = (length (rows X), ncols X)"

definition wf_array :: "'a array2 \<Rightarrow> bool" where
  "wf_array X = list_all (\<lambda>r. length r = ncols X) (rows X)"

text \<open>\<^verbatim>\<open>np.zeros((n, m))\<close>.\<close>

definition zeros :: "nat \<Rightarrow> nat \<Rightarrow> real array2" where
  "zeros n m = Array2 m (replicate n (replicate m 0))"

text \<open>The slices \<^verbatim>\<open>X[:, :-1]\<close> and \<^verbatim>\<open>X[:, 1:]\<close>.\<close>

definition all_but_last_col :: "'a array2 \<Rightarrow> 'a array2" where
  "all_but_last_col X = Array2 (ncols X - 1) (map butlast (rows X))"

definition all_but_first_col :: "'a array2 \<Rightarrow> 'a array2" where
  "all_but_first_col X = Array2 (ncols X - 1) (map tl (rows X))"

text \<open>
  The matrix product \<^verbatim>\<open>A @ B\<close>: a ValueError unless the column count of \<open>A\<close> is the
  row count of \<open>B\<close>; otherwise each entry is the inner product \<open>dot\<close> of a row of \<open>A\<close> with
  a column of \<open>B\<close>.
\<close>

definition matmul ::
  "(real list \<Rightarrow> real list \<Rightarrow> real) \<Rightarrow> real array2 \<Rightarrow> real array2 \<Rightarrow> error + real array2" where
  "matmul dot A B =
     (if ncols A \<noteq> length (rows B) then Inl ValueError
      else Inr (Array2 (ncols B)
        (map (\<lambda>r. map (\<lambda>j. dot r (map (\<lambda>b. b ! j) (rows B))) [0..<ncols B]) (rows A))))"

text \<open>The inner product of the reals, for the equations the notebooks' text states.\<close>

definition exact_dot :: "real list \<Rightarrow> real list \<Rightarrow> real" where
  "exact_dot r c = (\<Sum>(a, b)\<leftarrow>zip r c. a * b)"

text \<open>
  Elementwise operations broadcast: along each axis the two lengths are equal or one of
  them is 1, and the axis of length 1 is repeated; any other pair of shapes is a
  ValueError.
\<close>

definition bcast_dim :: "nat \<Rightarrow> nat \<Rightarrow> nat option" where
  "bcast_dim a b =
     (if a = b then Some a else if a = 1 then Some b else if b = 1 then Some a else None)"

definition stretch :: "nat \<Rightarrow> 'a list \<Rightarrow> 'a list" where
  "stretch n xs = (if length xs = 1 \<and> n \<noteq> 1 then replicate n (hd xs) else xs)"

definition broadcast_to :: "nat \<Rightarrow> nat \<Rightarrow> 'a array2 \<Rightarrow> 'a array2" where
  "broadcast_to n m X = Array2 m (map (stretch m) (stretch n (rows X)))"

definition elementwise ::
  "(real \<Rightarrow> real \<Rightarrow> real) \<Rightarrow> real array2 \<Rightarrow> real array2 \<Rightarrow> error + real array2" where
  "elementwise g X Y =
     (case (bcast_dim (length (rows X)) (length (rows Y)), bcast_dim (ncols X) (ncols Y)) of
        (Some n, Some m) \<Rightarrow>
          Inr (Array2 m (map2 (map2 g) (rows (broadcast_to n m X)) (rows (broadcast_to n m Y))))
      | _ \<Rightarrow> Inl ValueError)"

definition arr_neg :: "real array2 \<Rightarrow> real array2" where
  "arr_neg X = Array2 (ncols X) (map (map uminus) (rows X))"

text \<open>An exception raised by a step ends the computation with that exception.\<close>

definition and_then :: "error + 'a \<Rightarrow> ('a \<Rightarrow> error + 'b) \<Rightarrow> error + 'b" where
  "and_then r k = (case r of Inl e \<Rightarrow> Inl e | Inr v \<Rightarrow> k v)"

section \<open>The optimisation toolkit, as far as the notebooks use it\<close>

text \<open>
  The notebooks build optimisation problems through Drake's \<^verbatim>\<open>MathematicalProgram\<close> and
  hand them to \<^verbatim>\<open>Solve\<close>. The toolkit is not part of the repository: a program is
  modelled by the record of what the notebook asked for, and the solver is a parameter
  of every definition that calls it.

  Arithmetic on Drake's symbolic variables builds expressions.
\<close>

datatype expr =
    Num real
  | Indet nat
  | Cont "string \<times> nat"
  | PolyExpr nat
  | Neg expr
  | Add expr expr
  | Sub expr expr
  | Mul expr expr
  | IntPow expr nat

text \<open>
  The number an expression denotes, given the values of the indeterminates, of the
  continuous decision variables, and of the polynomials of the program at that point.
\<close>

fun eval ::
  "(nat \<Rightarrow> real) \<Rightarrow> (string \<times> nat \<Rightarrow> real) \<Rightarrow> (nat \<Rightarrow> real) \<Rightarrow> expr \<Rightarrow> real" where
  "eval xs cs ps (Num c) = c"
| "eval xs cs ps (Indet i) = xs i"
| "eval xs cs ps (Cont v) = cs v"
| "eval xs cs ps (PolyExpr k) = ps k"
| "eval xs cs ps (Neg a) = - eval xs cs ps a"
| "eval xs cs ps (Add a b) = eval xs cs ps a + eval xs cs ps b"
| "eval xs cs ps (Sub a b) = eval xs cs ps a - eval xs cs ps b"
| "eval xs cs ps (Mul a b) = eval xs cs ps a * eval xs cs ps b"
| "eval xs cs ps (IntPow a n) = eval xs cs ps a ^ n"

datatype poly_kind = SosPolynomial | FreePolynomial

datatype constr =
    GramPsd
  | CoefficientsMatch expr
  | BoundingBox "real list" "real list" string
  | LinearEq string string
  | EqualTimeIntervals

record prog =
  indeterminates :: "(string \<times> nat) list"
  continuous_vars :: "(string \<times> nat) list"
  polys :: "(poly_kind \<times> int) list"
  sos_constraints :: "expr list"
  linear_costs :: "expr list"
  other_constraints :: "constr list"

definition MathematicalProgram :: prog where
  "MathematicalProgram =
     \<lparr>indeterminates = [], continuous_vars = [], polys = [], sos_constraints = [],
      linear_costs = [], other_constraints = []\<rparr>"

text \<open>
  \<^verbatim>\<open>prog.NewIndeterminates(n, name)\<close>: the new indeterminates \<open>name(0), \<dots>, name(n-1)\<close> and
  the program with them.
\<close>

definition NewIndeterminates :: "nat \<Rightarrow> string \<Rightarrow> prog \<Rightarrow> expr list \<times> prog" where
  "NewIndeterminates n name p =
     (map Indet [length (indeterminates p)..<length (indeterminates p) + n],
      p\<lparr>indeterminates := indeterminates p @ map (Pair name) [0..<n]\<rparr>)"

text \<open>
  \<^verbatim>\<open>prog.NewSosPolynomial(Variables(x), deg)[0].ToExpression()\<close>: the expression of a new
  polynomial of the given degree that the program constrains to be a sum of squares.
\<close>

definition NewSosPolynomial :: "int \<Rightarrow> prog \<Rightarrow> expr \<times> prog" where
  "NewSosPolynomial deg p =
     (PolyExpr (length (polys p)), p\<lparr>polys := polys p @ [(SosPolynomial, deg)]\<rparr>)"

definition NewContinuousVariables :: "nat \<Rightarrow> string \<Rightarrow> prog \<Rightarrow> expr list \<times> prog" where
  "NewContinuousVariables n name p =
     (map (\<lambda>i. Cont (name, i)) [0..<n],
      p\<lparr>continuous_vars := continuous_vars p @ map (Pair name) [0..<n]\<rparr>)"

definition AddSosConstraint :: "expr \<Rightarrow> prog \<Rightarrow> prog" where
  "AddSosConstraint e p = p\<lparr>sos_constraints := sos_constraints p @ [e]\<rparr>"

text \<open>
  \<^verbatim>\<open>prog.GetAllConstraints()\<close>, as the toolkit documents it: every sum-of-squares polynomial
  contributes the semidefinite constraint on its Gram matrix, and every sum-of-squares
  constraint contributes such a constraint and the equalities that match coefficients
  (one entry stands for these equalities, of which there is at least one).
\<close>

definition GetAllConstraints :: "prog \<Rightarrow> constr list" where
  "GetAllConstraints p =
     map (\<lambda>_. GramPsd) (filter (\<lambda>k. fst k = SosPolynomial) (polys p))
     @ concat (map (\<lambda>e. [GramPsd, CoefficientsMatch e]) (sos_constraints p))
     @ other_constraints p"

text \<open>What \<^verbatim>\<open>Solve\<close> returns: the success flag, the optimal cost and the solution.\<close>

record solve_result =
  is_success :: bool
  get_optimal_cost :: real
  GetSolution :: "string \<times> nat \<Rightarrow> real"

type_synonym solver = "prog \<Rightarrow> solve_result"

text \<open>
  A procedure that may call the solver returns its result together with the programs it
  handed to \<^verbatim>\<open>Solve\<close>, in the order of the calls.
\<close>

type_synonym 'a solved = "'a \<times> prog list"

section \<open>Linear system identification\<close>

text \<open>
  The three identification functions of \<^verbatim>\<open>linear_sysid.ipynb\<close>. The section between the
  solution markers is empty in \<^verbatim>\<open>sysid_2norm\<close>; in the other two it creates an empty
  program, solves it and reads the optimal cost.
\<close>

definition sysid_2norm :: "real array2 \<Rightarrow> real array2 \<Rightarrow> real array2 \<times> real array2" where
  "sysid_2norm X U =
     (let n = fst (shape X);
          m = fst (shape U);
          A = zeros n n;
          B = zeros n m
      in (A, B))"

definition sysid_infnorm ::
  "solver \<Rightarrow> real array2 \<Rightarrow> real array2 \<Rightarrow> (real array2 \<times> real array2 \<times> real) solved" where
  "sysid_infnorm Solve X U =
     (let n = fst (shape X);
          m = fst (shape U);
          A = zeros n n;
          B = zeros n m;
          prog = MathematicalProgram;
          result = Solve prog;
          obj_value = get_optimal_cost result
      in ((A, B, obj_value), [prog]))"

definition sysid_1norm ::
  "solver \<Rightarrow> real array2 \<Rightarrow> real array2 \<Rightarrow> (real array2 \<times> real array2 \<times> real) solved" where
  "sysid_1norm Solve X U =
     (let n = fst (shape X);
          m = fst (shape U);
          A = zeros n n;
          B = zeros n m;
          prog = MathematicalProgram;
          result = Solve prog;
          obj_value = get_optimal_cost result
      in ((A, B, obj_value), [prog]))"

text \<open>
  The residual the notebook prints after each identification:
  \<^verbatim>\<open>res = Ahat @ X[:,:-1] + Bhat @ U[:,:-1] - X[:,1:]\<close>, in NumPy's arithmetic \<open>fl\<close>.
\<close>

definition residual ::
  "float_ops \<Rightarrow> real array2 \<Rightarrow> real array2 \<Rightarrow> real array2 \<Rightarrow> real array2 \<Rightarrow>
   error + real array2" where
  "residual fl Ahat Bhat X U =
     and_then (matmul (fl_dot fl) Ahat (all_but_last_col X)) (\<lambda>AX.
     and_then (matmul (fl_dot fl) Bhat (all_but_last_col U)) (\<lambda>BU.
     and_then (elementwise (fl_add fl) AX BU) (\<lambda>S.
     elementwise (fl_sub fl) S (all_but_first_col X))))"

text \<open>
  The three numbers printed with the residual: \<^verbatim>\<open>np.sum(res**2)\<close>,
  \<^verbatim>\<open>np.sum(np.max(np.abs(res), axis = 0))\<close> and \<^verbatim>\<open>np.sum(np.abs(res))\<close>. They are the
  objectives (a), (b) and (c) of the exercise. The square is the rounded product of an
  entry with itself; the absolute value and the maximum are exact. The maximum along axis
  0 of an array with no row is a ValueError.
\<close>

datatype objective = L2 | Linf | L1

fun residual_norm :: "float_ops \<Rightarrow> objective \<Rightarrow> real array2 \<Rightarrow> error + real" where
  "residual_norm fl L2 R = Inr (fl_sum fl (map (\<lambda>x. fl_mul fl x x) (concat (rows R))))"
| "residual_norm fl Linf R =
     (if rows R = [] then Inl ValueError
      else Inr (fl_sum fl (map (\<lambda>j. Max (set (map (\<lambda>r. \<bar>r ! j\<bar>) (rows R)))) [0..<ncols R])))"
| "residual_norm fl L1 R = Inr (fl_sum fl (map abs (concat (rows R))))"

text \<open>
  A solver that reports success with cost 0 and the zero solution on every program, and one
  that reports failure with cost 7; they stand for the toolkit where a concrete run is
  evaluated.
\<close>

definition succeeding_solver :: solver where
  "succeeding_solver p = \<lparr>is_success = True, get_optimal_cost = 0, GetSolution = (\<lambda>v. 0)\<rparr>"

definition failing_solver :: solver where
  "failing_solver p = \<lparr>is_success = False, get_optimal_cost = 7, GetSolution = (\<lambda>v. 0)\<rparr>"

section \<open>Notebooks\<close>

text \<open>
  A notebook runs in a namespace, the dictionary that \<^verbatim>\<open>locals()\<close> returns at the top
  level. The model keeps the names the notebook's own cells bind; library objects,
  functions and plot handles are kept by name only. Beside the namespace the state of a
  run records the programs handed to \<^verbatim>\<open>Solve\<close>, the calls made to the grading harness,
  and the state of NumPy's global random number generator. Printing and plotting are
  left out.
\<close>

datatype pyval =
    PyInt int
  | PyFloat real
  | PyTuple "pyval list"
  | PyVector "real list"
  | PyArray "real array2"
  | PyExpr expr
  | PyExprs "expr list"
  | PyProg prog
  | PyResult solve_result
  | PyFunction string
  | PyObject string

type_synonym namespace = "string \<rightharpoonup> pyval"

datatype grader_call =
    GradeOutput "string list" "namespace list" string
  | PrintTestResults string

record 'g notebook =
  names :: namespace
  solved :: "prog list"
  graded :: "grader_call list"
  rng :: 'g

text \<open>A kernel that has run nothing; its generator is in the state it started in.\<close>

definition fresh_kernel :: "'g \<Rightarrow> 'g notebook" where
  "fresh_kernel g = \<lparr>names = Map.empty, solved = [], graded = [], rng = g\<rparr>"

text \<open>
  Running a cell gives the state it reached and the exception that ended it, if any. A
  run of a notebook executes its code cells in order and stops at the first exception.
\<close>

type_synonym 'g outcome = "error option \<times> 'g notebook"

type_synonym 'g cell = "'g notebook \<Rightarrow> 'g outcome"

fun run_cells :: "'g cell list \<Rightarrow> 'g notebook \<Rightarrow> 'g outcome" where
  "run_cells [] s = (None, s)"
| "run_cells (c # cs) s =
     (case c s of (None, s') \<Rightarrow> run_cells cs s' | (Some e, s') \<Rightarrow> (Some e, s'))"

definition raise_in :: "'g notebook \<Rightarrow> error + 'a \<Rightarrow> ('a \<Rightarrow> 'g outcome) \<Rightarrow> 'g outcome" where
  "raise_in s r k = (case r of Inl e \<Rightarrow> (Some e, s) | Inr v \<Rightarrow> k v)"

definition lookup_array :: "namespace \<Rightarrow> string \<Rightarrow> error + real array2" where
  "lookup_array ns k =
     (case ns k of None \<Rightarrow> Inl (NameError k) | Some (PyArray a) \<Rightarrow> Inr a | Some _ \<Rightarrow> Inl TypeError)"

text \<open>
  Modelled from the spec: the grading harness \<^verbatim>\<open>Grader\<close> and the test classes handed to it
  are not among the sources. The spec says that the harness loads notebook-local variables
  and checks expected numerical properties, reporting pass/fail to a results file. A test
  class is modelled by its named checks, each a property of the notebook's variables, and
  a results file by the list of the checks' names with pass or fail.
\<close>

type_synonym test_class = "(string \<times> (namespace \<Rightarrow> bool)) list"

type_synonym files = "string \<rightharpoonup> (string \<times> bool) list"

text \<open>
  Modelled from the spec: \<^verbatim>\<open>Grader.grade_output(test_classes, locals_list, file)\<close>, which is
  not among the sources, runs the checks of each test class on the variables passed with
  it and writes their names with pass or fail to the file.
\<close>

definition grade_output :: "test_class list \<Rightarrow> namespace list \<Rightarrow> string \<Rightarrow> files \<Rightarrow> files" where
  "grade_output test_classes locals_list file fs =
     fs(file \<mapsto> concat (map2 (\<lambda>tests vars. map (\<lambda>(name, check). (name, check vars)) tests)
                         test_classes locals_list))"

text \<open>
  Modelled from the spec: the effect on the files of a call recorded in a run, given the
  test classes by name; \<^verbatim>\<open>Grader.print_test_results(file)\<close>, which is not among the sources,
  reads the file and writes nothing.
\<close>

fun harness :: "(string \<Rightarrow> test_class) \<Rightarrow> grader_call \<Rightarrow> files \<Rightarrow> files" where
  "harness classes (GradeOutput cs locals_list file) fs =
     grade_output (map classes cs) locals_list file fs"
| "harness classes (PrintTestResults file) fs = fs"

section \<open>Region of attraction of the time-reversed Van der Pol oscillator\<close>

text \<open>
  NumPy's \<^verbatim>\<open>dot\<close> on arrays of symbolic variables: the products are added from the left,
  starting with the first.
\<close>

definition sum_terms :: "expr list \<Rightarrow> expr" where
  "sum_terms ts = (case ts of [] \<Rightarrow> Num 0 | t # ts' \<Rightarrow> foldl Add t ts')"

definition sym_dot :: "expr list \<Rightarrow> expr list \<Rightarrow> error + expr" where
  "sym_dot a b =
     (if length a \<noteq> length b then Inl ValueError else Inr (sum_terms (map2 Mul a b)))"

definition vec_mat :: "expr list \<Rightarrow> real array2 \<Rightarrow> error + expr list" where
  "vec_mat a M =
     (if length a \<noteq> length (rows M) then Inl ValueError
      else Inr (map (\<lambda>j. sum_terms (map2 (\<lambda>ai r. Mul ai (Num (r ! j))) a (rows M)))
                  [0..<ncols M]))"

text \<open>\<^verbatim>\<open>f = lambda x: [- x[1], x[0] + (x[0]**2 - 1) * x[1]]\<close>\<close>

definition f :: "expr list \<Rightarrow> error + expr list" where
  "f x =
     (if length x < 2 then Inl IndexError
      else Inr [Neg (x ! 1), Add (x ! 0) (Mul (Sub (IntPow (x ! 0) 2) (Num 1)) (x ! 1))])"

text \<open>
  The two lines \<^verbatim>\<open>V = x.dot(P).dot(x)\<close> and \<^verbatim>\<open>V_dot = 2*x.dot(P).dot(f(x))\<close>, which
  \<^verbatim>\<open>is_verified\<close> and the cell of Method 2 both contain.
\<close>

definition lyapunov_V :: "real array2 \<Rightarrow> expr list \<Rightarrow> error + expr" where
  "lyapunov_V P x = and_then (vec_mat x P) (\<lambda>xP. sym_dot xP x)"

definition lyapunov_V_dot :: "real array2 \<Rightarrow> expr list \<Rightarrow> error + expr" where
  "lyapunov_V_dot P x =
     and_then (vec_mat x P) (\<lambda>xP.
     and_then (f x) (\<lambda>fx.
     and_then (sym_dot xP fx) (\<lambda>d.
     Inr (Mul (Num 2) d))))"

text \<open>
  \<^verbatim>\<open>is_verified(rho)\<close>. The function reads the global \<^verbatim>\<open>P\<close>, which is a parameter here.
\<close>

definition is_verified :: "solver \<Rightarrow> real array2 \<Rightarrow> real \<Rightarrow> (error + bool) solved" where
  "is_verified Solve P rho =
     (let prog = MathematicalProgram;
          (x, prog) = NewIndeterminates 2 ''x'' prog
      in case lyapunov_V P x of Inl e \<Rightarrow> (Inl e, []) | Inr V \<Rightarrow>
         case lyapunov_V_dot P x of Inl e \<Rightarrow> (Inl e, []) | Inr V_dot \<Rightarrow>
         let l_deg = (4::int)
         in if l_deg mod 2 \<noteq> 0 then (Inl (AssertionError ''l_deg % 2 == 0''), [])
            else
              let (l, prog) = NewSosPolynomial l_deg prog;
                  eps = 1 / 1000
              in case sym_dot x x of Inl e \<Rightarrow> (Inl e, []) | Inr xx \<Rightarrow>
                 let prog = AddSosConstraint
                       (Sub (Sub (Neg V_dot) (Mul l (Sub (Num rho) V))) (Mul (Num eps) xx)) prog;
                     result = Solve prog
                 in (Inr (is_success result), [prog]))"

text \<open>A call \<^verbatim>\<open>is_verified(rho)\<close> at the top level of the notebook.\<close>

definition call_is_verified ::
  "solver \<Rightarrow> real \<Rightarrow> 'g notebook \<Rightarrow> (error + bool) \<times> 'g notebook" where
  "call_is_verified Solve rho s =
     (case lookup_array (names s) ''P'' of
        Inl e \<Rightarrow> (Inl e, s)
      | Inr P \<Rightarrow>
          (case is_verified Solve P rho of
             (r, progs) \<Rightarrow> (r, s\<lparr>solved := solved s @ progs\<rparr>)))"

text \<open>
  The dynamics as a function of two real numbers: the value of the expressions that
  \<open>f\<close> builds from the two indeterminates.
\<close>

definition f_at :: "real \<Rightarrow> real \<Rightarrow> real list" where
  "f_at x1 x2 =
     (case f [Indet 0, Indet 1] of
        Inl e \<Rightarrow> []
      | Inr es \<Rightarrow> map (eval (\<lambda>i. [x1, x2] ! i) (\<lambda>v. 0) (\<lambda>k. 0)) es)"

text \<open>
  What the notebook's text says the cells compute, for comparison: the dynamics
  \<open>f(x) = (- x\<^sub>2, x\<^sub>1 + (x\<^sub>1\<^sup>2 - 1) x\<^sub>2)\<close>, the quadratic form \<open>V(x) = x\<^sup>T P x\<close>, its derivative
  \<open>2 x\<^sup>T P f(x)\<close> along the dynamics, and the Lyapunov equation \<open>A\<^sup>T P + P A = - Q\<close>, an
  equation between matrices of reals.
\<close>

definition f_spec :: "real \<Rightarrow> real \<Rightarrow> real list" where
  "f_spec x1 x2 = [- x2, x1 + (x1\<^sup>2 - 1) * x2]"

definition V_spec :: "real array2 \<Rightarrow> real \<Rightarrow> real \<Rightarrow> real" where
  "V_spec P x1 x2 = (\<Sum>i\<leftarrow>[0..<2]. \<Sum>j\<leftarrow>[0..<2]. [x1, x2] ! i * (rows P ! i ! j) * [x1, x2] ! j)"

definition V_dot_spec :: "real array2 \<Rightarrow> real \<Rightarrow> real \<Rightarrow> real" where
  "V_dot_spec P x1 x2 =
     2 * (\<Sum>i\<leftarrow>[0..<2]. \<Sum>j\<leftarrow>[0..<2]. [x1, x2] ! i * (rows P ! i ! j) * f_spec x1 x2 ! j)"

definition transpose_arr :: "'a array2 \<Rightarrow> 'a array2" where
  "transpose_arr X = Array2 (length (rows X)) (map (\<lambda>j. map (\<lambda>r. r ! j) (rows X)) [0..<ncols X])"

definition lyapunov_equation :: "real array2 \<Rightarrow> real array2 \<Rightarrow> real array2 \<Rightarrow> bool" where
  "lyapunov_equation A P Q =
     (and_then (matmul exact_dot (transpose_arr A) P) (\<lambda>AtP.
      and_then (matmul exact_dot P A) (\<lambda>PA. elementwise (+) AtP PA)) = Inr (arr_neg Q))"

text \<open>The code cells of the notebook, in order; \<open>lyap\<close> is \<^verbatim>\<open>RealContinuousLyapunovEquation\<close>.\<close>

definition roa_imports :: "'g cell" where
  "roa_imports s =
     (None, s\<lparr>names := (names s)
        (''np'' \<mapsto> PyObject ''numpy'',
         ''plt'' \<mapsto> PyObject ''matplotlib.pyplot'',
         ''rcParams'' \<mapsto> PyObject ''matplotlib.rcParams'',
         ''LinearQuadraticRegulator'' \<mapsto> PyObject ''pydrake.all.LinearQuadraticRegulator'',
         ''MathematicalProgram'' \<mapsto> PyObject ''pydrake.all.MathematicalProgram'',
         ''RealContinuousLyapunovEquation'' \<mapsto>
            PyObject ''pydrake.all.RealContinuousLyapunovEquation'',
         ''Solve'' \<mapsto> PyObject ''pydrake.all.Solve'',
         ''Variables'' \<mapsto> PyObject ''pydrake.all.Variables'',
         ''VanDerPolOscillator'' \<mapsto> PyObject ''pydrake.examples.van_der_pol.VanDerPolOscillator'',
         ''plot_2d_phase_portrait'' \<mapsto> PyObject ''underactuated.plot_2d_phase_portrait'')\<rparr>)"

definition roa_dynamics :: "'g cell" where
  "roa_dynamics s = (None, s\<lparr>names := (names s)(''f'' \<mapsto> PyFunction ''f'')\<rparr>)"

definition roa_phase_portrait :: "'g cell" where
  "roa_phase_portrait s =
     (None, s\<lparr>names := (names s)
        (''limit_cycle'' \<mapsto> PyObject ''VanDerPolOscillator.CalcLimitCycle()'',
         ''xlim'' \<mapsto> PyTuple [PyInt (- 3), PyInt 3])\<rparr>)"

text \<open>
  The cell of the linearization: \<^verbatim>\<open>A = np.array([[0, -1], [1, -1]])\<close>, \<^verbatim>\<open>Q = np.eye(2)\<close> and
  \<^verbatim>\<open>P = RealContinuousLyapunovEquation(A, Q)\<close>.
\<close>

definition linearization_A :: "real array2" where
  "linearization_A = Array2 2 [[0, - 1], [1, - 1]]"

definition lyapunov_Q :: "real array2" where
  "lyapunov_Q = Array2 2 [[1, 0], [0, 1]]"

definition roa_linearization ::
  "(real array2 \<Rightarrow> real array2 \<Rightarrow> real array2) \<Rightarrow> 'g cell" where
  "roa_linearization lyap s =
     (let A = linearization_A;
          Q = lyapunov_Q;
          P = lyap A Q
      in (None, s\<lparr>names := (names s)(''A'' \<mapsto> PyArray A, ''Q'' \<mapsto> PyArray Q, ''P'' \<mapsto> PyArray P)\<rparr>))"

definition roa_plot_functions :: "'g cell" where
  "roa_plot_functions s =
     (None, s\<lparr>names := (names s)
        (''plot_V'' \<mapsto> PyFunction ''plot_V'', ''plot_Vdot'' \<mapsto> PyFunction ''plot_Vdot'')\<rparr>)"

definition roa_manual_check :: "'g cell" where
  "roa_manual_check s =
     (None, s\<lparr>names := (names s)
        (''rho_max'' \<mapsto> PyFloat (23 / 10),
         ''Vdot_cs'' \<mapsto> PyObject ''plot_Vdot()'',
         ''V_cs'' \<mapsto> PyObject ''plot_V(rho_max)'')\<rparr>)"

definition roa_superimpose :: "'g cell" where
  "roa_superimpose s = (None, s)"

definition roa_define_is_verified :: "'g cell" where
  "roa_define_is_verified s =
     (None, s\<lparr>names := (names s)(''is_verified'' \<mapsto> PyFunction ''is_verified'')\<rparr>)"

text \<open>Method 1: the line search is left to the student; the cell binds three names.\<close>

definition roa_method1 :: "'g cell" where
  "roa_method1 s =
     (None, s\<lparr>names := (names s)
        (''rho'' \<mapsto> PyInt 0, ''rho_step'' \<mapsto> PyFloat (1 / 100), ''rho_method_1'' \<mapsto> PyInt 0)\<rparr>)"

text \<open>
  Method 2. The end of the cell solves the program only if it has more than one
  constraint; \<open>rho\<close> is the decision variable and \<open>prog2\<close> the program at that point.
\<close>

definition method2_solve :: "solver \<Rightarrow> expr \<Rightarrow> prog \<Rightarrow> 'g cell" where
  "method2_solve Solve rho prog2 s =
     (if length (GetAllConstraints prog2) > 1 then
        let result = Solve prog2;
            s = s\<lparr>names := (names s)(''result'' \<mapsto> PyResult result),
                  solved := solved s @ [prog2]\<rparr>
        in if \<not> is_success result then (Some (AssertionError ''result.is_success()''), s)
           else (case rho of
                   Cont v \<Rightarrow>
                     (None, s\<lparr>names := (names s)
                        (''rho_method_2'' \<mapsto> PyFloat (GetSolution result v))\<rparr>)
                 | _ \<Rightarrow> (Some TypeError, s))
      else (None, s))"

definition roa_method2 :: "solver \<Rightarrow> 'g cell" where
  "roa_method2 Solve s =
     (let prog2 = MathematicalProgram;
          (x, prog2) = NewIndeterminates 2 ''x'' prog2;
          s = s\<lparr>names := (names s)(''prog2'' \<mapsto> PyProg prog2, ''x'' \<mapsto> PyExprs x)\<rparr>
      in raise_in s (lookup_array (names s) ''P'') (\<lambda>P.
         raise_in s (lyapunov_V P x) (\<lambda>V.
         let s = s\<lparr>names := (names s)(''V'' \<mapsto> PyExpr V)\<rparr>
         in raise_in s (lyapunov_V_dot P x) (\<lambda>V_dot.
            let l_deg = (4::int);
                s = s\<lparr>names := (names s)(''V_dot'' \<mapsto> PyExpr V_dot, ''l_deg'' \<mapsto> PyInt l_deg)\<rparr>
            in if l_deg mod 2 \<noteq> 0 then (Some (AssertionError ''l_deg % 2 == 0''), s)
               else
                 let (l, prog2) = NewSosPolynomial l_deg prog2;
                     s = s\<lparr>names := (names s)(''prog2'' \<mapsto> PyProg prog2, ''l'' \<mapsto> PyExpr l)\<rparr>;
                     (rhos, prog2) = NewContinuousVariables 1 ''rho'' prog2;
                     s = s\<lparr>names := (names s)(''prog2'' \<mapsto> PyProg prog2)\<rparr>
                 in (case rhos of
                       [] \<Rightarrow> (Some IndexError, s)
                     | rho # _ \<Rightarrow>
                         method2_solve Solve rho prog2
                           (s\<lparr>names := (names s)(''rho'' \<mapsto> PyExpr rho)\<rparr>))))))"

definition roa_method3 :: "'g cell" where
  "roa_method3 s =
     (None, s\<lparr>names := (names s)
        (''prog3'' \<mapsto> PyProg MathematicalProgram, ''rho_method_3'' \<mapsto> PyInt 0)\<rparr>)"

text \<open>
  The autograding cell:
  \<^verbatim>\<open>Grader.grade_output([TestVanDerPol], [locals()], 'results.json')\<close> and then
  \<^verbatim>\<open>Grader.print_test_results('results.json')\<close>.
\<close>

definition roa_autograde :: "'g cell" where
  "roa_autograde s =
     (let s = s\<lparr>names := (names s)
            (''TestVanDerPol'' \<mapsto>
               PyObject ''underactuated.exercises.lyapunov.test_van_der_pol.TestVanDerPol'',
             ''Grader'' \<mapsto> PyObject ''underactuated.exercises.grader.Grader'')\<rparr>
      in (None, s\<lparr>graded := graded s @
            [GradeOutput [''TestVanDerPol''] [names s] ''results.json'',
             PrintTestResults ''results.json'']\<rparr>))"

definition roa_notebook ::
  "solver \<Rightarrow> (real array2 \<Rightarrow> real array2 \<Rightarrow> real array2) \<Rightarrow> 'g cell list" where
  "roa_notebook Solve lyap =
     [roa_imports, roa_dynamics, roa_phase_portrait, roa_linearization lyap,
      roa_plot_functions, roa_manual_check, roa_superimpose, roa_define_is_verified,
      roa_method1, roa_method2 Solve, roa_method3, roa_autograde]"

section \<open>The limit cycle of the Van der Pol oscillator\<close>

text \<open>
  \<^verbatim>\<open>vdp_limit_cycle()\<close> of \<^verbatim>\<open>limit_cycles.ipynb\<close>. The program that \<^verbatim>\<open>DirectCollocation\<close>
  builds is a parameter; the function adds three constraints to it, solves it and asserts
  success. The initial guess and the plot are left out.
\<close>

definition vdp_limit_cycle :: "solver \<Rightarrow> prog \<Rightarrow> (error + unit) solved" where
  "vdp_limit_cycle Solve dircol_prog =
     (let prog = dircol_prog;
          prog = prog\<lparr>other_constraints := other_constraints prog @ [EqualTimeIntervals]\<rparr>;
          prog = prog\<lparr>other_constraints := other_constraints prog @
                   [BoundingBox [0, 1 / 10] [0, 10] ''initial_state'']\<rparr>;
          prog = prog\<lparr>other_constraints := other_constraints prog @
                   [LinearEq ''final_state'' ''initial_state'']\<rparr>;
          result = Solve prog
      in if \<not> is_success result then (Inl (AssertionError ''result.is_success()''), [prog])
         else (Inr (), [prog]))"

definition lc_imports :: "'g cell" where
  "lc_imports s =
     (None, s\<lparr>names := (names s)
        (''plt'' \<mapsto> PyObject ''matplotlib.pyplot'',
         ''mpld3'' \<mapsto> PyObject ''mpld3'',
         ''np'' \<mapsto> PyObject ''numpy'',
         ''display'' \<mapsto> PyObject ''IPython.display.display'',
         ''DirectCollocation'' \<mapsto> PyObject ''pydrake.all.DirectCollocation'',
         ''PiecewisePolynomial'' \<mapsto> PyObject ''pydrake.all.PiecewisePolynomial'',
         ''Solve'' \<mapsto> PyObject ''pydrake.all.Solve'',
         ''eq'' \<mapsto> PyObject ''pydrake.all.eq'',
         ''VanDerPolOscillator'' \<mapsto> PyObject ''pydrake.examples.van_der_pol.VanDerPolOscillator'',
         ''running_as_notebook'' \<mapsto> PyObject ''underactuated.running_as_notebook'')\<rparr>)"

definition lc_limit_cycle :: "solver \<Rightarrow> prog \<Rightarrow> 'g cell" where
  "lc_limit_cycle Solve dircol_prog s =
     (let s = s\<lparr>names := (names s)(''vdp_limit_cycle'' \<mapsto> PyFunction ''vdp_limit_cycle'')\<rparr>
      in case vdp_limit_cycle Solve dircol_prog of
           (Inl e, progs) \<Rightarrow> (Some e, s\<lparr>solved := solved s @ progs\<rparr>)
         | (Inr u, progs) \<Rightarrow> (None, s\<lparr>solved := solved s @ progs\<rparr>))"

definition empty_cell :: "'g cell" where
  "empty_cell s = (None, s)"

definition limit_cycles_notebook :: "solver \<Rightarrow> prog \<Rightarrow> 'g cell list" where
  "limit_cycles_notebook Solve dircol_prog =
     [lc_imports, lc_limit_cycle Solve dircol_prog, empty_cell]"

section \<open>The system identification notebook\<close>

text \<open>
  What the notebook takes from NumPy and Drake: the arithmetic on array entries, seeding
  the global generator, drawing an array of normal samples of a given shape (which
  advances the generator), simulating the linear system under the sinusoidal input
  (sample times, inputs and states), and simulating the plant in closed loop with the
  regulator designed for an identified model, which may fail.
\<close>

record 'g numerics =
  np_arith :: float_ops
  np_random_seed :: "int \<Rightarrow> 'g"
  np_random_normal :: "'g \<Rightarrow> nat \<times> nat \<Rightarrow> real array2 \<times> 'g"
  drake_simulation ::
    "real array2 \<Rightarrow> real array2 \<Rightarrow> real array2 \<Rightarrow> real array2 \<Rightarrow> real list \<times> real array2 \<times> real array2"
  drake_lqr_simulation ::
    "real array2 \<Rightarrow> real array2 \<Rightarrow> real array2 \<Rightarrow> real array2 \<Rightarrow> real array2 \<Rightarrow> real array2 \<Rightarrow>
     real array2 \<Rightarrow> real array2 \<Rightarrow> error + real list \<times> real array2 \<times> real array2"

definition arr_scale :: "float_ops \<Rightarrow> real array2 \<Rightarrow> real \<Rightarrow> real array2" where
  "arr_scale fl X c = Array2 (ncols X) (map (map (\<lambda>x. fl_mul fl x c)) (rows X))"

definition identity :: "nat \<Rightarrow> real array2" where
  "identity n = Array2 n (map (\<lambda>i. map (\<lambda>j. if i = j then 1 else 0) [0..<n]) [0..<n])"

text \<open>
  \<^verbatim>\<open>generate_data(A, B, C, D, noise_level)\<close>: the simulated trajectory with measurement
  noise added to the states, \<^verbatim>\<open>X + np.random.normal(size = X.shape)*noise_level\<close>. The
  generator is passed in and returned.
\<close>

definition generate_data ::
  "'g numerics \<Rightarrow> real array2 \<Rightarrow> real array2 \<Rightarrow> real array2 \<Rightarrow> real array2 \<Rightarrow> real \<Rightarrow> 'g \<Rightarrow>
   (error + real list \<times> real array2 \<times> real array2) \<times> 'g" where
  "generate_data nm A B C D noise_level g =
     (let (t, U, X) = drake_simulation nm A B C D;
          (noise, g) = np_random_normal nm g (shape X)
      in (and_then (elementwise (fl_add (np_arith nm)) X
                      (arr_scale (np_arith nm) noise noise_level))
            (\<lambda>X. Inr (t, U, X)), g))"

text \<open>\<^verbatim>\<open>test_LQR(A_hat, B_hat)\<close>, which reads the globals \<^verbatim>\<open>A, B, C, D\<close>.\<close>

definition test_LQR ::
  "'g numerics \<Rightarrow> real array2 \<Rightarrow> real array2 \<Rightarrow> real array2 \<Rightarrow> real array2 \<Rightarrow> real array2 \<Rightarrow>
   real array2 \<Rightarrow> error + real list \<times> real array2 \<times> real array2" where
  "test_LQR nm A B C D A_hat B_hat =
     (let Q = identity (fst (shape A));
          R = identity (snd (shape B))
      in drake_lqr_simulation nm A B C D A_hat B_hat Q R)"

definition sysid_setup :: "'g numerics \<Rightarrow> 'g cell" where
  "sysid_setup nm s =
     (None, s\<lparr>names := (names s)
        (''plt'' \<mapsto> PyObject ''matplotlib.pyplot'',
         ''np'' \<mapsto> PyObject ''numpy'',
         ''DiagramBuilder'' \<mapsto> PyObject ''pydrake.all.DiagramBuilder'',
         ''LinearQuadraticRegulator'' \<mapsto> PyObject ''pydrake.all.LinearQuadraticRegulator'',
         ''LinearSystem'' \<mapsto> PyObject ''pydrake.all.LinearSystem'',
         ''LogVectorOutput'' \<mapsto> PyObject ''pydrake.all.LogVectorOutput'',
         ''PiecewisePolynomial'' \<mapsto> PyObject ''pydrake.all.PiecewisePolynomial'',
         ''Simulator'' \<mapsto> PyObject ''pydrake.all.Simulator'',
         ''TrajectorySource'' \<mapsto> PyObject ''pydrake.all.TrajectorySource'',
         ''MathematicalProgram'' \<mapsto>
            PyObject ''pydrake.solvers.mathematicalprogram.MathematicalProgram'',
         ''Solve'' \<mapsto> PyObject ''pydrake.solvers.mathematicalprogram.Solve''),
       rng := np_random_seed nm 0\<rparr>)"

text \<open>The test system of the notebook: the arrays \<^verbatim>\<open>A\<close>, \<^verbatim>\<open>B\<close>, \<^verbatim>\<open>C\<close> and \<^verbatim>\<open>D\<close>.\<close>

definition sysid_A :: "real array2" where
  "sysid_A = Array2 4
     [[8 / 10, - (1 / 10), 0, 0],
      [0, 2 / 10, 0, 1 / 10],
      [0, - (1 / 10), 10001 / 10000, 0],
      [0, 2 / 10, 0, 1 / 10]]"

definition sysid_B :: "real array2" where
  "sysid_B = Array2 1 [[0], [- (2 / 100)], [1 / 100], [- (2 / 100)]]"

definition sysid_C :: "real array2" where
  "sysid_C = identity 4"

definition sysid_D :: "real array2" where
  "sysid_D = zeros 4 1"

definition sysid_system :: "'g cell" where
  "sysid_system s =
     (None, s\<lparr>names := (names s)
        (''A'' \<mapsto> PyArray sysid_A, ''B'' \<mapsto> PyArray sysid_B,
         ''C'' \<mapsto> PyArray sysid_C, ''D'' \<mapsto> PyArray sysid_D)\<rparr>)"

definition sysid_data :: "'g numerics \<Rightarrow> 'g cell" where
  "sysid_data nm s =
     (let s = s\<lparr>names := (names s)(''generate_data'' \<mapsto> PyFunction ''generate_data'')\<rparr>
      in raise_in s (lookup_array (names s) ''A'') (\<lambda>A.
         raise_in s (lookup_array (names s) ''B'') (\<lambda>B.
         raise_in s (lookup_array (names s) ''C'') (\<lambda>C.
         raise_in s (lookup_array (names s) ''D'') (\<lambda>D.
         case generate_data nm A B C D (1 / 100000) (rng s) of (r, g) \<Rightarrow>
         let s = s\<lparr>rng := g\<rparr>
         in raise_in s r (\<lambda>(t, U, X).
            (None, s\<lparr>names := (names s)
               (''t'' \<mapsto> PyVector t, ''U'' \<mapsto> PyArray U, ''X'' \<mapsto> PyArray X,
                ''fig'' \<mapsto> PyObject ''Figure'', ''ax'' \<mapsto> PyObject ''Axes'')\<rparr>)))))))"

text \<open>
  The three identification cells: each defines its function, calls it on \<^verbatim>\<open>X\<close> and
  \<^verbatim>\<open>U\<close>, computes the residual and prints its three norms.
\<close>

definition sysid_residuals :: "float_ops \<Rightarrow> 'g notebook \<Rightarrow> real array2 \<Rightarrow> real array2 \<Rightarrow>
    real array2 \<Rightarrow> real array2 \<Rightarrow> 'g outcome" where
  "sysid_residuals fl s Ahat Bhat X U =
     raise_in s (residual fl Ahat Bhat X U) (\<lambda>res.
     let s = s\<lparr>names := (names s)(''res'' \<mapsto> PyArray res)\<rparr>
     in raise_in s (residual_norm fl L2 res) (\<lambda>r2.
        raise_in s (residual_norm fl Linf res) (\<lambda>rinf.
        raise_in s (residual_norm fl L1 res) (\<lambda>r1. (None, s)))))"

definition sysid_cell_2norm :: "'g numerics \<Rightarrow> 'g cell" where
  "sysid_cell_2norm nm s =
     (let s = s\<lparr>names := (names s)(''sysid_2norm'' \<mapsto> PyFunction ''sysid_2norm'')\<rparr>
      in raise_in s (lookup_array (names s) ''X'') (\<lambda>X.
         raise_in s (lookup_array (names s) ''U'') (\<lambda>U.
         case sysid_2norm X U of (Ahat_2norm, Bhat_2norm) \<Rightarrow>
         let s = s\<lparr>names := (names s)
                (''Ahat_2norm'' \<mapsto> PyArray Ahat_2norm, ''Bhat_2norm'' \<mapsto> PyArray Bhat_2norm)\<rparr>
         in sysid_residuals (np_arith nm) s Ahat_2norm Bhat_2norm X U)))"

definition sysid_cell_infnorm :: "'g numerics \<Rightarrow> solver \<Rightarrow> 'g cell" where
  "sysid_cell_infnorm nm Solve s =
     (let s = s\<lparr>names := (names s)(''sysid_infnorm'' \<mapsto> PyFunction ''sysid_infnorm'')\<rparr>
      in raise_in s (lookup_array (names s) ''X'') (\<lambda>X.
         raise_in s (lookup_array (names s) ''U'') (\<lambda>U.
         case sysid_infnorm Solve X U of ((Ahat_infnorm, Bhat_infnorm, obj_infnorm), progs) \<Rightarrow>
         let s = s\<lparr>names := (names s)
                (''Ahat_infnorm'' \<mapsto> PyArray Ahat_infnorm, ''Bhat_infnorm'' \<mapsto> PyArray Bhat_infnorm,
                 ''obj_infnorm'' \<mapsto> PyFloat obj_infnorm),
               solved := solved s @ progs\<rparr>
         in sysid_residuals (np_arith nm) s Ahat_infnorm Bhat_infnorm X U)))"

definition sysid_cell_1norm :: "'g numerics \<Rightarrow> solver \<Rightarrow> 'g cell" where
  "sysid_cell_1norm nm Solve s =
     (let s = s\<lparr>names := (names s)(''sysid_1norm'' \<mapsto> PyFunction ''sysid_1norm'')\<rparr>
      in raise_in s (lookup_array (names s) ''X'') (\<lambda>X.
         raise_in s (lookup_array (names s) ''U'') (\<lambda>U.
         case sysid_1norm Solve X U of ((Ahat_1norm, Bhat_1norm, obj_1norm), progs) \<Rightarrow>
         let s = s\<lparr>names := (names s)
                (''Ahat_1norm'' \<mapsto> PyArray Ahat_1norm, ''Bhat_1norm'' \<mapsto> PyArray Bhat_1norm,
                 ''obj_1norm'' \<mapsto> PyFloat obj_1norm),
               solved := solved s @ progs\<rparr>
         in sysid_residuals (np_arith nm) s Ahat_1norm Bhat_1norm X U)))"

text \<open>
  One call \<^verbatim>\<open>t, U_k, X_k = test_LQR(Ahat, Bhat)\<close> at the top level, binding the three
  results to the given names.
\<close>

definition call_test_LQR ::
  "'g numerics \<Rightarrow> string \<Rightarrow> string \<Rightarrow> string \<Rightarrow> string \<Rightarrow> ('g notebook \<Rightarrow> 'g outcome) \<Rightarrow> 'g cell" where
  "call_test_LQR nm Ahat Bhat Uname Xname k s =
     raise_in s (lookup_array (names s) Ahat) (\<lambda>A_hat.
     raise_in s (lookup_array (names s) Bhat) (\<lambda>B_hat.
     raise_in s (lookup_array (names s) ''A'') (\<lambda>A.
     raise_in s (lookup_array (names s) ''B'') (\<lambda>B.
     raise_in s (lookup_array (names s) ''C'') (\<lambda>C.
     raise_in s (lookup_array (names s) ''D'') (\<lambda>D.
     raise_in s (test_LQR nm A B C D A_hat B_hat) (\<lambda>(t, U, X).
     k (s\<lparr>names := (names s)(''t'' \<mapsto> PyVector t, Uname \<mapsto> PyArray U, Xname \<mapsto> PyArray X)\<rparr>))))))))"

definition plot_figure :: "'g cell" where
  "plot_figure s =
     (None, s\<lparr>names := (names s)(''fig'' \<mapsto> PyObject ''Figure'', ''ax'' \<mapsto> PyObject ''Axes'')\<rparr>)"

definition sysid_cell_lqr :: "'g numerics \<Rightarrow> 'g cell" where
  "sysid_cell_lqr nm s =
     (let s = s\<lparr>names := (names s)(''test_LQR'' \<mapsto> PyFunction ''test_LQR'')\<rparr>
      in call_test_LQR nm ''Ahat_2norm'' ''Bhat_2norm'' ''U_2norm'' ''X_2norm''
        (call_test_LQR nm ''Ahat_infnorm'' ''Bhat_infnorm'' ''U_infnorm'' ''X_infnorm''
        (call_test_LQR nm ''Ahat_1norm'' ''Bhat_1norm'' ''U_1norm'' ''X_1norm''
         plot_figure)) s)"

text \<open>The cell that repeats the experiment with \<^verbatim>\<open>noise_level = 0.5\<close>.\<close>

definition sysid_cell_noisy :: "'g numerics \<Rightarrow> solver \<Rightarrow> 'g cell" where
  "sysid_cell_noisy nm Solve s =
     raise_in s (lookup_array (names s) ''A'') (\<lambda>A.
     raise_in s (lookup_array (names s) ''B'') (\<lambda>B.
     raise_in s (lookup_array (names s) ''C'') (\<lambda>C.
     raise_in s (lookup_array (names s) ''D'') (\<lambda>D.
     case generate_data nm A B C D (1 / 2) (rng s) of (r, g) \<Rightarrow>
     let s = s\<lparr>rng := g\<rparr>
     in raise_in s r (\<lambda>(t, U_noisy, X_noisy).
        let s = s\<lparr>names := (names s)
              (''t'' \<mapsto> PyVector t, ''U_noisy'' \<mapsto> PyArray U_noisy, ''X_noisy'' \<mapsto> PyArray X_noisy)\<rparr>
        in case sysid_2norm X_noisy U_noisy of (Ahat2, Bhat2) \<Rightarrow>
           call_test_LQR nm ''Ahat_noisy_2norm'' ''Bhat_noisy_2norm'' ''U_2norm'' ''X_2norm''
             (\<lambda>s. case sysid_infnorm Solve X_noisy U_noisy of ((Ahati, Bhati, obji), progs) \<Rightarrow>
                call_test_LQR nm ''Ahat_noisy_infnorm'' ''Bhat_noisy_infnorm'' ''U_infnorm'' ''X_infnorm''
                  (\<lambda>s. case sysid_1norm Solve X_noisy U_noisy of ((Ahat1, Bhat1, obj1), progs) \<Rightarrow>
                     call_test_LQR nm ''Ahat_noisy_1norm'' ''Bhat_noisy_1norm'' ''U_1norm'' ''X_1norm''
                       plot_figure
                       (s\<lparr>names := (names s)
                          (''Ahat_noisy_1norm'' \<mapsto> PyArray Ahat1, ''Bhat_noisy_1norm'' \<mapsto> PyArray Bhat1,
                           ''obj_1norm_noisy'' \<mapsto> PyFloat obj1),
                          solved := solved s @ progs\<rparr>))
                  (s\<lparr>names := (names s)
                     (''Ahat_noisy_infnorm'' \<mapsto> PyArray Ahati, ''Bhat_noisy_infnorm'' \<mapsto> PyArray Bhati,
                      ''obj_infnorm_noisy'' \<mapsto> PyFloat obji),
                     solved := solved s @ progs\<rparr>))
             (s\<lparr>names := (names s)
                (''Ahat_noisy_2norm'' \<mapsto> PyArray Ahat2, ''Bhat_noisy_2norm'' \<mapsto> PyArray Bhat2)\<rparr>))))))"

text \<open>
  The autograding cell:
  \<^verbatim>\<open>Grader.grade_output([TestLinearSysid], [locals()], 'results.json')\<close> and then
  \<^verbatim>\<open>Grader.print_test_results('results.json')\<close>. An empty code cell follows it.
\<close>

definition sysid_autograde :: "'g cell" where
  "sysid_autograde s =
     (let s = s\<lparr>names := (names s)
            (''TestLinearSysid'' \<mapsto>
               PyObject ''underactuated.exercises.sysid.test_linear_sysid.TestLinearSysid'',
             ''Grader'' \<mapsto> PyObject ''underactuated.exercises.grader.Grader'')\<rparr>
      in (None, s\<lparr>graded := graded s @
            [GradeOutput [''TestLinearSysid''] [names s] ''results.json'',
             PrintTestResults ''results.json'']\<rparr>))"

definition sysid_notebook :: "'g numerics \<Rightarrow> solver \<Rightarrow> 'g cell list" where
  "sysid_notebook nm Solve =
     [sysid_setup nm, sysid_system, sysid_data nm, sysid_cell_2norm nm,
      sysid_cell_infnorm nm Solve, sysid_cell_1norm nm Solve, sysid_cell_lqr nm,
      sysid_cell_noisy nm Solve, sysid_autograde, empty_cell]"

section \<open>The programs of the region-of-attraction notebook\<close>

lemma upt_0_2: "[0..<2] = [0, Suc 0]"
  by (simp add: upt_rec numeral_2_eq_2)

lemma new_indeterminates_x:
  "NewIndeterminates 2 ''x'' MathematicalProgram
     = ([Indet 0, Indet (Suc 0)],
        \<lparr>indeterminates = [(''x'', 0), (''x'', Suc 0)], continuous_vars = [], polys = [],
         sos_constraints = [], linear_costs = [], other_constraints = []\<rparr>)"
  by (simp add: NewIndeterminates_def MathematicalProgram_def upt_0_2)

lemma rows_of_shape_2:
  assumes "shape P = (2, m)"
  obtains r0 r1 where "rows P = [r0, r1]"
proof -
  from assms have "length (rows P) = Suc (Suc 0)" by (simp add: shape_def)
  then obtain r0 rs where 1: "rows P = r0 # rs" and "length rs = Suc 0"
    by (auto simp: length_Suc_conv)
  then obtain r1 where "rs = [r1]"
    by (auto simp: length_Suc_conv)
  with 1 have "rows P = [r0, r1]" by simp
  then show ?thesis by (rule that)
qed

text \<open>The expressions that the two Lyapunov lines build from a 2-by-2 matrix.\<close>

lemma lyapunov_V_2x2:
  assumes "shape P = (2, 2)"
  shows "\<exists>V. lyapunov_V P [Indet 0, Indet (Suc 0)] = Inr V \<and>
           (\<forall>xs cs ps. eval xs cs ps V = V_spec P (xs 0) (xs (Suc 0)))"
proof -
  obtain r0 r1 where r: "rows P = [r0, r1]" using assms by (rule rows_of_shape_2)
  have nc: "ncols P = 2" using assms by (simp add: shape_def)
  show ?thesis
    by (simp add: lyapunov_V_def vec_mat_def sym_dot_def sum_terms_def and_then_def r nc upt_0_2
        V_spec_def algebra_simps)
qed

lemma f_indeterminates:
  "f [Indet 0, Indet (Suc 0)] =
     Inr [Neg (Indet (Suc 0)),
          Add (Indet 0) (Mul (Sub (IntPow (Indet 0) 2) (Num 1)) (Indet (Suc 0)))]"
  by (simp add: f_def)

lemma f_at_eq_spec: "f_at x1 x2 = f_spec x1 x2"
  by (simp add: f_at_def f_spec_def f_indeterminates)

lemma lyapunov_V_dot_2x2:
  assumes "shape P = (2, 2)"
  shows "\<exists>V_dot. lyapunov_V_dot P [Indet 0, Indet (Suc 0)] = Inr V_dot \<and>
           (\<forall>xs cs ps. eval xs cs ps V_dot = V_dot_spec P (xs 0) (xs (Suc 0)))"
proof -
  obtain r0 r1 where r: "rows P = [r0, r1]" using assms by (rule rows_of_shape_2)
  have nc: "ncols P = 2" using assms by (simp add: shape_def)
  show ?thesis
    by (simp add: lyapunov_V_dot_def vec_mat_def sym_dot_def sum_terms_def and_then_def
        f_indeterminates r nc upt_0_2 V_dot_spec_def f_spec_def algebra_simps)
qed

lemma is_verified_2x2:
  assumes "shape P = (2, 2)"
  shows "\<exists>e. is_verified Solve P rho =
      (let prog = \<lparr>indeterminates = [(''x'', 0), (''x'', 1)], continuous_vars = [],
                    polys = [(SosPolynomial, 4)], sos_constraints = [e], linear_costs = [],
                    other_constraints = []\<rparr>
       in (Inr (is_success (Solve prog)), [prog]))
    \<and> (\<forall>xs cs ps. eval xs cs ps e =
          - V_dot_spec P (xs 0) (xs 1) - ps 0 * (rho - V_spec P (xs 0) (xs 1))
          - 1 / 1000 * (xs 0 * xs 0 + xs 1 * xs 1))"
proof -
  obtain V where V: "lyapunov_V P [Indet 0, Indet (Suc 0)] = Inr V"
    "\<And>xs cs ps. eval xs cs ps V = V_spec P (xs 0) (xs (Suc 0))"
    using lyapunov_V_2x2 [OF assms] by blast
  obtain V_dot where Vd: "lyapunov_V_dot P [Indet 0, Indet (Suc 0)] = Inr V_dot"
    "\<And>xs cs ps. eval xs cs ps V_dot = V_dot_spec P (xs 0) (xs (Suc 0))"
    using lyapunov_V_dot_2x2 [OF assms] by blast
  define e where "e = Sub (Sub (Neg V_dot) (Mul (PolyExpr 0) (Sub (Num rho) V)))
      (Mul (Num (1 / 1000)) (Add (Mul (Indet 0) (Indet 0)) (Mul (Indet (Suc 0)) (Indet (Suc 0)))))"
  have "is_verified Solve P rho =
      (let prog = \<lparr>indeterminates = [(''x'', 0), (''x'', 1)], continuous_vars = [],
                    polys = [(SosPolynomial, 4)], sos_constraints = [e], linear_costs = [],
                    other_constraints = []\<rparr>
       in (Inr (is_success (Solve prog)), [prog]))"
    by (simp add: is_verified_def new_indeterminates_x V(1) Vd(1) NewSosPolynomial_def
        sym_dot_def sum_terms_def AddSosConstraint_def Let_def e_def)
  moreover have "eval xs cs ps e =
          - V_dot_spec P (xs 0) (xs 1) - ps 0 * (rho - V_spec P (xs 0) (xs 1))
          - 1 / 1000 * (xs 0 * xs 0 + xs 1 * xs 1)" for xs cs ps
    by (simp add: e_def V(2) Vd(2))
  ultimately show ?thesis by blast
qed

text \<open>
  C6. For every real \<open>rho\<close> and every 2-by-2 matrix \<open>P\<close>, \<^verbatim>\<open>is_verified(rho)\<close> builds, from an
  empty program, the program with the two indeterminates \<open>x(0), x(1)\<close>, one sum-of-squares
  multiplier polynomial of degree 4, no cost, and the single sum-of-squares constraint
  whose value at every point is \<open>- V_dot - lambda * (rho - V) - eps * x.x\<close>, with
  \<open>V = x\<^sup>T P x\<close>, \<open>V_dot = 2 x\<^sup>T P f(x)\<close> and \<open>eps = 1/1000\<close>. It hands that program to the
  solver once and returns the solver's success flag. A call at the top level of the
  notebook gives this result in every state that binds \<open>P\<close>, and changes nothing of the
  state but the record of solved programs.
\<close>

theorem is_verified_program:
  assumes "shape P = (2, 2)"
  shows "\<exists>e. (let prog = \<lparr>indeterminates = [(''x'', 0), (''x'', 1)], continuous_vars = [],
                          polys = [(SosPolynomial, 4)], sos_constraints = [e],
                          linear_costs = [], other_constraints = []\<rparr>
              in is_verified Solve P rho = (Inr (is_success (Solve prog)), [prog])
               \<and> (\<forall>s. names s ''P'' = Some (PyArray P) \<longrightarrow>
                    call_is_verified Solve rho s
                      = (Inr (is_success (Solve prog)), s\<lparr>solved := solved s @ [prog]\<rparr>)))
           \<and> (\<forall>xs cs ps. eval xs cs ps e =
                 - V_dot_spec P (xs 0) (xs 1) - ps 0 * (rho - V_spec P (xs 0) (xs 1))
                 - 1 / 1000 * (xs 0 * xs 0 + xs 1 * xs 1))"
proof -
  obtain e where e: "is_verified Solve P rho =
      (let prog = \<lparr>indeterminates = [(''x'', 0), (''x'', 1)], continuous_vars = [],
                    polys = [(SosPolynomial, 4)], sos_constraints = [e], linear_costs = [],
                    other_constraints = []\<rparr>
       in (Inr (is_success (Solve prog)), [prog]))"
    and ev: "\<And>xs cs ps. eval xs cs ps e =
          - V_dot_spec P (xs 0) (xs 1) - ps 0 * (rho - V_spec P (xs 0) (xs 1))
          - 1 / 1000 * (xs 0 * xs 0 + xs 1 * xs 1)"
    using is_verified_2x2 [OF assms, of Solve rho] by blast
  have "call_is_verified Solve rho s
      = (let prog = \<lparr>indeterminates = [(''x'', 0), (''x'', 1)], continuous_vars = [],
                    polys = [(SosPolynomial, 4)], sos_constraints = [e], linear_costs = [],
                    other_constraints = []\<rparr>
         in (Inr (is_success (Solve prog)), s\<lparr>solved := solved s @ [prog]\<rparr>))"
    if "names s ''P'' = Some (PyArray P)" for s :: "'a notebook"
    using that by (simp add: call_is_verified_def lookup_array_def e Let_def)
  with e ev show ?thesis
    unfolding Let_def by blast
qed

theorem is_verified_program_witness:
  "shape (Array2 2 [[3 / 2, - (1 / 2)], [- (1 / 2), 1 :: real]]) = (2, 2)
   \<and> fst (is_verified succeeding_solver (Array2 2 [[3 / 2, - (1 / 2)], [- (1 / 2), 1]]) 1)
       = Inr True
   \<and> fst (is_verified failing_solver (Array2 2 [[3 / 2, - (1 / 2)], [- (1 / 2), 1]]) 1)
       = Inr False
   \<and> length (snd (is_verified failing_solver (Array2 2 [[3 / 2, - (1 / 2)], [- (1 / 2), 1]]) 1))
       = 1"
proof -
  define P0 :: "real array2" where "P0 = Array2 2 [[3 / 2, - (1 / 2)], [- (1 / 2), 1]]"
  have sh: "shape P0 = (2, 2)" by (simp add: P0_def shape_def)
  from is_verified_program [OF sh, of succeeding_solver 1]
  have 1: "fst (is_verified succeeding_solver P0 1) = Inr True"
    unfolding Let_def by (auto simp: succeeding_solver_def)
  from is_verified_program [OF sh, of failing_solver 1]
  have 2: "fst (is_verified failing_solver P0 1) = Inr False
      \<and> length (snd (is_verified failing_solver P0 1)) = 1"
    unfolding Let_def by (auto simp: failing_solver_def)
  from sh 1 2 show ?thesis
    by (simp add: P0_def)
qed

lemma lyapunov_V_error: "lyapunov_V P x = Inl e \<Longrightarrow> e = ValueError"
  by (auto simp: lyapunov_V_def vec_mat_def sym_dot_def and_then_def split: if_splits sum.splits)

lemma lyapunov_V_dot_error: "lyapunov_V_dot P x = Inl e \<Longrightarrow> e = ValueError \<or> e = IndexError"
  by (auto simp: lyapunov_V_dot_def vec_mat_def sym_dot_def f_def and_then_def
      split: if_splits sum.splits)

lemma lookup_array_error: "lookup_array ns k = Inl e \<Longrightarrow> e = NameError k \<or> e = TypeError"
  by (auto simp: lookup_array_def split: option.splits pyval.splits)

lemma method2_solve_error:
  "fst (method2_solve Solve rho prog2 s) = Some e \<Longrightarrow>
     e = AssertionError ''result.is_success()'' \<or> e = TypeError"
  by (auto simp: method2_solve_def Let_def split: if_splits expr.splits)

text \<open>
  C9. The assertion \<^verbatim>\<open>assert l_deg % 2 == 0\<close> never fires, neither in \<^verbatim>\<open>is_verified\<close> nor
  in the cell of Method 2: whatever the solver, the matrix, the threshold and the state of
  the notebook, neither ends with the assertion error of that line.
\<close>

theorem l_deg_assertions_never_fire:
  "fst (is_verified Solve P rho) \<noteq> Inl (AssertionError ''l_deg % 2 == 0'')
   \<and> fst (roa_method2 Solve s) \<noteq> Some (AssertionError ''l_deg % 2 == 0'')"
proof
  show "fst (is_verified Solve P rho) \<noteq> Inl (AssertionError ''l_deg % 2 == 0'')"
    by (auto simp: is_verified_def Let_def sym_dot_def
        split: prod.splits sum.splits if_splits dest: lyapunov_V_error lyapunov_V_dot_error)
next
  show "fst (roa_method2 Solve s) \<noteq> Some (AssertionError ''l_deg % 2 == 0'')"
    by (auto simp: roa_method2_def Let_def raise_in_def
        split: prod.splits sum.splits if_splits list.splits
        dest: lyapunov_V_error lyapunov_V_dot_error lookup_array_error method2_solve_error)
qed

section \<open>Runs of the notebooks\<close>

lemma method2_cell_2x2:
  assumes P: "names s ''P'' = Some (PyArray P)" and sh: "shape P = (2, 2)"
  shows "\<exists>V V_dot prog2.
     roa_method2 Solve s =
       (None, s\<lparr>names := (names s)
          (''x'' \<mapsto> PyExprs [Indet 0, Indet 1], ''V'' \<mapsto> PyExpr V, ''V_dot'' \<mapsto> PyExpr V_dot,
           ''l_deg'' \<mapsto> PyInt 4, ''l'' \<mapsto> PyExpr (PolyExpr 0), ''prog2'' \<mapsto> PyProg prog2,
           ''rho'' \<mapsto> PyExpr (Cont (''rho'', 0)))\<rparr>)
     \<and> prog2 = \<lparr>indeterminates = [(''x'', 0), (''x'', 1)], continuous_vars = [(''rho'', 0)],
                polys = [(SosPolynomial, 4)], sos_constraints = [], linear_costs = [],
                other_constraints = []\<rparr>
     \<and> GetAllConstraints prog2 = [GramPsd]
     \<and> (\<forall>xs cs ps. eval xs cs ps V = V_spec P (xs 0) (xs 1))
     \<and> (\<forall>xs cs ps. eval xs cs ps V_dot = V_dot_spec P (xs 0) (xs 1))"
proof -
  obtain V where V: "lyapunov_V P [Indet 0, Indet (Suc 0)] = Inr V"
    "\<And>xs cs ps. eval xs cs ps V = V_spec P (xs 0) (xs (Suc 0))"
    using lyapunov_V_2x2 [OF sh] by blast
  obtain V_dot where Vd: "lyapunov_V_dot P [Indet 0, Indet (Suc 0)] = Inr V_dot"
    "\<And>xs cs ps. eval xs cs ps V_dot = V_dot_spec P (xs 0) (xs (Suc 0))"
    using lyapunov_V_dot_2x2 [OF sh] by blast
  define prog2 where "prog2 = \<lparr>indeterminates = [(''x'', 0), (''x'', 1::nat)],
      continuous_vars = [(''rho'', 0::nat)],
      polys = [(SosPolynomial, 4::int)], sos_constraints = [], linear_costs = [],
      other_constraints = []\<rparr>"
  have g: "GetAllConstraints prog2 = [GramPsd]"
    by (simp add: GetAllConstraints_def prog2_def)
  have "roa_method2 Solve s =
       (None, s\<lparr>names := (names s)
          (''x'' \<mapsto> PyExprs [Indet 0, Indet 1], ''V'' \<mapsto> PyExpr V, ''V_dot'' \<mapsto> PyExpr V_dot,
           ''l_deg'' \<mapsto> PyInt 4, ''l'' \<mapsto> PyExpr (PolyExpr 0), ''prog2'' \<mapsto> PyProg prog2,
           ''rho'' \<mapsto> PyExpr (Cont (''rho'', 0)))\<rparr>)"
    using P g
    by (simp add: roa_method2_def new_indeterminates_x raise_in_def lookup_array_def V(1) Vd(1)
        NewSosPolynomial_def NewContinuousVariables_def method2_solve_def prog2_def Let_def
        fun_upd_twist)
  with g V(2) Vd(2) show ?thesis
    unfolding prog2_def by auto
qed

lemma run_cells_append:
  "run_cells (cs @ ds) s =
     (case run_cells cs s of (None, s') \<Rightarrow> run_cells ds s' | (Some e, s') \<Rightarrow> (Some e, s'))"
  by (induction cs arbitrary: s) (auto split: prod.splits option.splits)

text \<open>The state of the notebook when the cell of Method 2 starts.\<close>

lemma roa_before_method2:
  "\<exists>ns. run_cells [roa_imports, roa_dynamics, roa_phase_portrait, roa_linearization lyap,
        roa_plot_functions, roa_manual_check, roa_superimpose, roa_define_is_verified,
        roa_method1] (fresh_kernel g)
      = (None, \<lparr>names = ns, solved = [], graded = [], rng = g\<rparr>)
    \<and> ns ''P'' = Some (PyArray (lyap linearization_A lyapunov_Q))
    \<and> ns ''A'' = Some (PyArray linearization_A)
    \<and> ns ''Q'' = Some (PyArray lyapunov_Q)
    \<and> ns ''rho_method_1'' = Some (PyInt 0)
    \<and> ns ''rho_method_2'' = None
    \<and> ns ''result'' = None"
  by (simp add: fresh_kernel_def roa_imports_def roa_dynamics_def roa_phase_portrait_def
      roa_linearization_def roa_plot_functions_def roa_manual_check_def roa_superimpose_def
      roa_define_is_verified_def roa_method1_def Let_def)

lemma roa_run:
  assumes "shape (lyap linearization_A lyapunov_Q) = (2, 2)"
  shows "\<exists>ns V V_dot prog2.
      run_cells (roa_notebook Solve lyap) (fresh_kernel g)
        = (None, \<lparr>names = ns, solved = [],
                  graded = [GradeOutput [''TestVanDerPol''] [ns] ''results.json'',
                            PrintTestResults ''results.json''],
                  rng = g\<rparr>)
    \<and> ns ''P'' = Some (PyArray (lyap linearization_A lyapunov_Q))
    \<and> ns ''A'' = Some (PyArray linearization_A)
    \<and> ns ''Q'' = Some (PyArray lyapunov_Q)
    \<and> ns ''rho_method_1'' = Some (PyInt 0)
    \<and> ns ''rho_method_2'' = None
    \<and> ns ''result'' = None
    \<and> ns ''rho_method_3'' = Some (PyInt 0)
    \<and> ns ''V'' = Some (PyExpr V)
    \<and> ns ''V_dot'' = Some (PyExpr V_dot)
    \<and> ns ''prog2'' = Some (PyProg prog2)
    \<and> GetAllConstraints prog2 = [GramPsd]
    \<and> (\<forall>xs cs ps. eval xs cs ps V =
          V_spec (lyap linearization_A lyapunov_Q) (xs 0) (xs 1))
    \<and> (\<forall>xs cs ps. eval xs cs ps V_dot =
          V_dot_spec (lyap linearization_A lyapunov_Q) (xs 0) (xs 1))"
proof -
  define P where "P = lyap linearization_A lyapunov_Q"
  define pre :: "'a cell list" where "pre = [roa_imports, roa_dynamics, roa_phase_portrait,
        roa_linearization lyap, roa_plot_functions, roa_manual_check, roa_superimpose,
        roa_define_is_verified, roa_method1]"
  obtain ns9 where pre: "run_cells pre (fresh_kernel g)
      = (None, \<lparr>names = ns9, solved = [], graded = [], rng = g\<rparr>)"
    and ns9: "ns9 ''P'' = Some (PyArray P)"
      "ns9 ''A'' = Some (PyArray linearization_A)"
      "ns9 ''Q'' = Some (PyArray lyapunov_Q)"
      "ns9 ''rho_method_1'' = Some (PyInt 0)" "ns9 ''rho_method_2'' = None"
      "ns9 ''result'' = None"
    using roa_before_method2 [of lyap g] unfolding pre_def P_def by blast
  define s9 where "s9 = \<lparr>names = ns9, solved = [], graded = [], rng = g\<rparr>"
  have sh: "shape P = (2, 2)" using assms by (simp add: P_def)
  have "names s9 ''P'' = Some (PyArray P)" by (simp add: s9_def ns9)
  from method2_cell_2x2 [OF this sh, of Solve]
  obtain V V_dot prog2 where m2: "roa_method2 Solve s9 =
       (None, s9\<lparr>names := (names s9)
          (''x'' \<mapsto> PyExprs [Indet 0, Indet 1], ''V'' \<mapsto> PyExpr V, ''V_dot'' \<mapsto> PyExpr V_dot,
           ''l_deg'' \<mapsto> PyInt 4, ''l'' \<mapsto> PyExpr (PolyExpr 0), ''prog2'' \<mapsto> PyProg prog2,
           ''rho'' \<mapsto> PyExpr (Cont (''rho'', 0)))\<rparr>)"
    and g: "GetAllConstraints prog2 = [GramPsd]"
    and ev: "\<And>xs cs ps. eval xs cs ps V = V_spec P (xs 0) (xs 1)"
      "\<And>xs cs ps. eval xs cs ps V_dot = V_dot_spec P (xs 0) (xs 1)"
    by blast
  define ns where "ns = (ns9
          (''x'' \<mapsto> PyExprs [Indet 0, Indet 1], ''V'' \<mapsto> PyExpr V, ''V_dot'' \<mapsto> PyExpr V_dot,
           ''l_deg'' \<mapsto> PyInt 4, ''l'' \<mapsto> PyExpr (PolyExpr 0), ''prog2'' \<mapsto> PyProg prog2,
           ''rho'' \<mapsto> PyExpr (Cont (''rho'', 0)),
           ''prog3'' \<mapsto> PyProg MathematicalProgram, ''rho_method_3'' \<mapsto> PyInt 0,
           ''TestVanDerPol'' \<mapsto>
               PyObject ''underactuated.exercises.lyapunov.test_van_der_pol.TestVanDerPol'',
           ''Grader'' \<mapsto> PyObject ''underactuated.exercises.grader.Grader''))"
  have nb: "roa_notebook Solve lyap = pre @ [roa_method2 Solve, roa_method3, roa_autograde]"
    by (simp add: roa_notebook_def pre_def)
  have "run_cells (roa_notebook Solve lyap) (fresh_kernel g)
        = (None, \<lparr>names = ns, solved = [],
                  graded = [GradeOutput [''TestVanDerPol''] [ns] ''results.json'',
                            PrintTestResults ''results.json''],
                  rng = g\<rparr>)"
    unfolding nb run_cells_append pre
    using m2 by (simp add: s9_def roa_method3_def roa_autograde_def ns_def Let_def)
  moreover have "ns ''P'' = Some (PyArray P)"
      "ns ''A'' = Some (PyArray linearization_A)"
      "ns ''Q'' = Some (PyArray lyapunov_Q)"
      "ns ''rho_method_1'' = Some (PyInt 0)" "ns ''rho_method_2'' = None"
      "ns ''result'' = None"
      "ns ''rho_method_3'' = Some (PyInt 0)" "ns ''V'' = Some (PyExpr V)"
      "ns ''V_dot'' = Some (PyExpr V_dot)" "ns ''prog2'' = Some (PyProg prog2)"
    by (simp_all add: ns_def ns9)
  ultimately show ?thesis
    using g ev unfolding P_def by blast
qed

text \<open>
  C4. With the solution sections as shipped, \<^verbatim>\<open>sysid_2norm(X, U)\<close> returns the \<open>p\<close>-by-\<open>p\<close>
  and \<open>p\<close>-by-\<open>q\<close> zero matrices for every \<open>X\<close> of shape \<open>(p, N+1)\<close> and \<open>U\<close> of shape
  \<open>(q, N+1)\<close>; \<^verbatim>\<open>sysid_infnorm\<close> and \<^verbatim>\<open>sysid_1norm\<close> return the same zero matrices (and the
  optimal cost of an empty program). The cells of Method 1 and Method 3 bind
  \<^verbatim>\<open>rho_method_1\<close> and \<^verbatim>\<open>rho_method_3\<close> to 0, and a run of the region-of-attraction
  notebook, in which the Lyapunov solver returns a 2-by-2 matrix, ends without exception
  with both bound to 0.
\<close>

theorem placeholders_give_zero_results:
  assumes "shape X = (p, Suc N)" "shape U = (q, Suc N)"
    and "shape (lyap linearization_A lyapunov_Q) = (2, 2)"
  shows "sysid_2norm X U = (zeros p p, zeros p q)
    \<and> fst (sysid_infnorm Solve X U)
        = (zeros p p, zeros p q, get_optimal_cost (Solve MathematicalProgram))
    \<and> fst (sysid_1norm Solve X U)
        = (zeros p p, zeros p q, get_optimal_cost (Solve MathematicalProgram))
    \<and> names (snd (roa_method1 s)) ''rho_method_1'' = Some (PyInt 0)
    \<and> names (snd (roa_method3 s)) ''rho_method_3'' = Some (PyInt 0)
    \<and> fst (run_cells (roa_notebook Solve lyap) (fresh_kernel g)) = None
    \<and> names (snd (run_cells (roa_notebook Solve lyap) (fresh_kernel g))) ''rho_method_1''
        = Some (PyInt 0)
    \<and> names (snd (run_cells (roa_notebook Solve lyap) (fresh_kernel g))) ''rho_method_3''
        = Some (PyInt 0)"
proof -
  have "sysid_2norm X U = (zeros p p, zeros p q)"
    using assms(1,2) by (simp add: sysid_2norm_def)
  moreover have "fst (sysid_infnorm Solve X U)
        = (zeros p p, zeros p q, get_optimal_cost (Solve MathematicalProgram))"
    using assms(1,2) by (simp add: sysid_infnorm_def Let_def)
  moreover have "fst (sysid_1norm Solve X U)
        = (zeros p p, zeros p q, get_optimal_cost (Solve MathematicalProgram))"
    using assms(1,2) by (simp add: sysid_1norm_def Let_def)
  moreover obtain ns where
    "fst (run_cells (roa_notebook Solve lyap) (fresh_kernel g)) = None"
    "names (snd (run_cells (roa_notebook Solve lyap) (fresh_kernel g))) = ns"
    "ns ''rho_method_1'' = Some (PyInt 0)" "ns ''rho_method_3'' = Some (PyInt 0)"
    using roa_run [where lyap = lyap and Solve = Solve and g = g] assms(3) by auto
  moreover have "names (snd (roa_method1 s)) ''rho_method_1'' = Some (PyInt 0)"
    "names (snd (roa_method3 s)) ''rho_method_3'' = Some (PyInt 0)"
    by (simp_all add: roa_method1_def roa_method3_def)
  ultimately show ?thesis by simp
qed

theorem placeholders_give_zero_results_witness:
  "sysid_2norm (Array2 2 [[1, 2], [3, 4]]) (Array2 2 [[5, 6]])
      = (Array2 2 [[0, 0], [0, 0]], Array2 1 [[0], [0]])
   \<and> fst (sysid_infnorm failing_solver (Array2 2 [[1, 2], [3, 4]]) (Array2 2 [[5, 6]]))
      = (Array2 2 [[0, 0], [0, 0]], Array2 1 [[0], [0]], 7)
   \<and> names (snd (run_cells
        (roa_notebook succeeding_solver (\<lambda>A Q. Array2 2 [[3 / 2, - (1 / 2)], [- (1 / 2), 1]]))
        (fresh_kernel ()))) ''rho_method_1'' = Some (PyInt 0)
   \<and> names (snd (run_cells
        (roa_notebook succeeding_solver (\<lambda>A Q. Array2 2 [[3 / 2, - (1 / 2)], [- (1 / 2), 1]]))
        (fresh_kernel ()))) ''rho_method_3'' = Some (PyInt 0)"
proof -
  define lyap0 :: "real array2 \<Rightarrow> real array2 \<Rightarrow> real array2"
    where "lyap0 = (\<lambda>A Q. Array2 2 [[3 / 2, - (1 / 2)], [- (1 / 2), 1]])"
  have 1: "shape (Array2 2 [[1, 2], [3, 4 :: real]]) = (2, Suc 1)"
    and 2: "shape (Array2 2 [[5, 6 :: real]]) = (1, Suc 1)"
    and 3: "shape (lyap0 linearization_A lyapunov_Q) = (2, 2)"
    by (simp_all add: shape_def lyap0_def)
  from placeholders_give_zero_results [where lyap = lyap0 and Solve = failing_solver
      and g = "()" and s = "fresh_kernel ()", OF 1 2 3]
    placeholders_give_zero_results [where lyap = lyap0 and Solve = succeeding_solver
      and g = "()" and s = "fresh_kernel ()", OF 1 2 3]
  show ?thesis
    unfolding lyap0_def by (simp add: zeros_def failing_solver_def numeral_2_eq_2)
qed

lemma sos_constraint_passes_guard: "1 < length (GetAllConstraints (AddSosConstraint e p))"
  by (simp add: GetAllConstraints_def AddSosConstraint_def)

lemma method2_cell_never_solves:
  "solved (snd (roa_method2 Solve s)) = solved s
   \<and> names (snd (roa_method2 Solve s)) ''rho_method_2'' = names s ''rho_method_2''
   \<and> names (snd (roa_method2 Solve s)) ''result'' = names s ''result''
   \<and> fst (roa_method2 Solve s) \<noteq> Some (AssertionError m)"
  by (auto simp: roa_method2_def new_indeterminates_x raise_in_def NewSosPolynomial_def
      NewContinuousVariables_def method2_solve_def GetAllConstraints_def Let_def
      split: sum.splits
      dest: lyapunov_V_error lyapunov_V_dot_error lookup_array_error)

text \<open>
  C8. The end of the cell of Method 2 hands \<^verbatim>\<open>prog2\<close> to the solver exactly when
  \<^verbatim>\<open>prog2\<close> has more than one constraint, which it has once a sum-of-squares constraint is
  added; otherwise it leaves the state as it is. The cell as shipped, run in any state,
  hands nothing to the solver, raises no assertion error and does not bind
  \<^verbatim>\<open>rho_method_2\<close>. In a run of the whole notebook (the Lyapunov solver returning a 2-by-2
  matrix) \<^verbatim>\<open>prog2\<close> has one constraint, no program is ever handed to the solver, no
  exception is raised, and neither \<^verbatim>\<open>result\<close> nor \<^verbatim>\<open>rho_method_2\<close> is bound.
\<close>

theorem method2_solves_only_when_filled:
  assumes "shape (lyap linearization_A lyapunov_Q) = (2, 2)"
  shows "solved (snd (method2_solve Solve rho prog s))
           = (if 1 < length (GetAllConstraints prog) then solved s @ [prog] else solved s)
    \<and> (\<not> 1 < length (GetAllConstraints prog) \<longrightarrow> method2_solve Solve rho prog s = (None, s))
    \<and> 1 < length (GetAllConstraints (AddSosConstraint e prog))
    \<and> solved (snd (roa_method2 Solve s)) = solved s
    \<and> names (snd (roa_method2 Solve s)) ''rho_method_2'' = names s ''rho_method_2''
    \<and> fst (roa_method2 Solve s) \<noteq> Some (AssertionError m)
    \<and> fst (run_cells (roa_notebook Solve lyap) (fresh_kernel g)) = None
    \<and> solved (snd (run_cells (roa_notebook Solve lyap) (fresh_kernel g))) = []
    \<and> names (snd (run_cells (roa_notebook Solve lyap) (fresh_kernel g))) ''result'' = None
    \<and> names (snd (run_cells (roa_notebook Solve lyap) (fresh_kernel g))) ''rho_method_2'' = None
    \<and> (\<exists>p2. names (snd (run_cells (roa_notebook Solve lyap) (fresh_kernel g))) ''prog2''
               = Some (PyProg p2) \<and> length (GetAllConstraints p2) = 1)"
proof -
  have 1: "solved (snd (method2_solve Solve rho prog s))
           = (if 1 < length (GetAllConstraints prog) then solved s @ [prog] else solved s)"
    by (simp add: method2_solve_def Let_def split: expr.splits)
  have 2: "\<not> 1 < length (GetAllConstraints prog) \<longrightarrow> method2_solve Solve rho prog s = (None, s)"
    by (simp add: method2_solve_def)
  obtain ns p2 where
    "run_cells (roa_notebook Solve lyap) (fresh_kernel g)
        = (None, \<lparr>names = ns, solved = [],
                  graded = [GradeOutput [''TestVanDerPol''] [ns] ''results.json'',
                            PrintTestResults ''results.json''],
                  rng = g\<rparr>)"
    "ns ''rho_method_2'' = None" "ns ''result'' = None"
    "ns ''prog2'' = Some (PyProg p2)" "GetAllConstraints p2 = [GramPsd]"
    using roa_run [where lyap = lyap and Solve = Solve and g = g] assms by blast
  then have 3: "fst (run_cells (roa_notebook Solve lyap) (fresh_kernel g)) = None
    \<and> solved (snd (run_cells (roa_notebook Solve lyap) (fresh_kernel g))) = []
    \<and> names (snd (run_cells (roa_notebook Solve lyap) (fresh_kernel g))) ''result'' = None
    \<and> names (snd (run_cells (roa_notebook Solve lyap) (fresh_kernel g))) ''rho_method_2'' = None
    \<and> (\<exists>p2. names (snd (run_cells (roa_notebook Solve lyap) (fresh_kernel g))) ''prog2''
               = Some (PyProg p2) \<and> length (GetAllConstraints p2) = 1)"
    by simp
  from 1 2 3 sos_constraint_passes_guard [of e prog] method2_cell_never_solves [of Solve s m]
  show ?thesis
    by blast
qed

theorem method2_solves_only_when_filled_witness:
  "solved (snd (run_cells
      (roa_notebook failing_solver (\<lambda>A Q. Array2 2 [[3 / 2, - (1 / 2)], [- (1 / 2), 1]]))
      (fresh_kernel ()))) = []
   \<and> fst (run_cells
      (roa_notebook failing_solver (\<lambda>A Q. Array2 2 [[3 / 2, - (1 / 2)], [- (1 / 2), 1]]))
      (fresh_kernel ())) = None
   \<and> names (snd (run_cells
      (roa_notebook failing_solver (\<lambda>A Q. Array2 2 [[3 / 2, - (1 / 2)], [- (1 / 2), 1]]))
      (fresh_kernel ()))) ''rho_method_2'' = None
   \<and> method2_solve failing_solver (Cont (''rho'', 0)) MathematicalProgram (fresh_kernel ())
       = (None, fresh_kernel ())"
proof -
  define lyap0 :: "real array2 \<Rightarrow> real array2 \<Rightarrow> real array2"
    where "lyap0 = (\<lambda>A Q. Array2 2 [[3 / 2, - (1 / 2)], [- (1 / 2), 1]])"
  have sh: "shape (lyap0 linearization_A lyapunov_Q) = (2, 2)"
    by (simp add: shape_def lyap0_def)
  have g: "\<not> 1 < length (GetAllConstraints MathematicalProgram)"
    by (simp add: GetAllConstraints_def MathematicalProgram_def)
  from method2_solves_only_when_filled [where lyap = lyap0 and Solve = failing_solver
      and g = "()" and prog = MathematicalProgram and s = "fresh_kernel ()"
      and rho = "Cont (''rho'', 0)", OF sh] g
  show ?thesis
    unfolding lyap0_def by blast
qed

lemma limit_cycles_never_grade:
  "graded (snd (run_cells (limit_cycles_notebook Solve dircol_prog) s)) = graded s"
  by (simp add: limit_cycles_notebook_def lc_imports_def lc_limit_cycle_def empty_cell_def
      vdp_limit_cycle_def Let_def)

lemma harness_after_grading:
  "fold (harness classes) (calls @ [GradeOutput [c] [vars] file, PrintTestResults file]) fs file
     = Some (map (\<lambda>(name, check). (name, check vars)) (classes c))"
  by (simp add: grade_output_def)

text \<open>
  C5 (amended). The last cell of the region-of-attraction notebook is its autograding
  cell: it calls \<^verbatim>\<open>Grader.grade_output\<close> with the test class \<^verbatim>\<open>TestVanDerPol\<close>, the
  namespace of the notebook at that point and the file \<^verbatim>\<open>results.json\<close>, and then
  \<^verbatim>\<open>Grader.print_test_results\<close> on the same file; the harness, as the spec describes
  it, then holds in \<^verbatim>\<open>results.json\<close> pass or fail for each check of the test class on
  those variables, whatever the files held before. The system identification notebook
  has such a cell, with the test class \<^verbatim>\<open>TestLinearSysid\<close> and the same report, followed
  by one empty cell. The limit-cycle notebook never calls the grading harness: its run
  leaves every file as it was.
\<close>

theorem autograding_cells:
  "last (roa_notebook Solve lyap) = roa_autograde
   \<and> graded (snd (roa_autograde s))
       = graded s @ [GradeOutput [''TestVanDerPol''] [names (snd (roa_autograde s))] ''results.json'',
                     PrintTestResults ''results.json'']
   \<and> names (snd (roa_autograde s))
       = (names s)(''TestVanDerPol'' \<mapsto>
               PyObject ''underactuated.exercises.lyapunov.test_van_der_pol.TestVanDerPol'',
             ''Grader'' \<mapsto> PyObject ''underactuated.exercises.grader.Grader'')
   \<and> fst (roa_autograde s) = None
   \<and> fold (harness classes) (graded (snd (roa_autograde s))) fs ''results.json''
       = Some (map (\<lambda>(name, check). (name, check (names (snd (roa_autograde s)))))
                 (classes ''TestVanDerPol''))
   \<and> last (butlast (sysid_notebook nm Solve)) = sysid_autograde
   \<and> last (sysid_notebook nm Solve) = empty_cell
   \<and> empty_cell s = (None, s)
   \<and> graded (snd (sysid_autograde s))
       = graded s @ [GradeOutput [''TestLinearSysid''] [names (snd (sysid_autograde s))]
                        ''results.json'',
                     PrintTestResults ''results.json'']
   \<and> names (snd (sysid_autograde s))
       = (names s)(''TestLinearSysid'' \<mapsto>
               PyObject ''underactuated.exercises.sysid.test_linear_sysid.TestLinearSysid'',
             ''Grader'' \<mapsto> PyObject ''underactuated.exercises.grader.Grader'')
   \<and> fst (sysid_autograde s) = None
   \<and> fold (harness classes) (graded (snd (sysid_autograde s))) fs ''results.json''
       = Some (map (\<lambda>(name, check). (name, check (names (snd (sysid_autograde s)))))
                 (classes ''TestLinearSysid''))
   \<and> graded (snd (run_cells (limit_cycles_notebook Solve dircol_prog) s)) = graded s
   \<and> fold (harness classes) (graded (snd (run_cells (limit_cycles_notebook Solve dircol_prog) s))) fs
       = fold (harness classes) (graded s) fs"
proof -
  have roa: "graded (snd (roa_autograde s))
       = graded s @ [GradeOutput [''TestVanDerPol''] [names (snd (roa_autograde s))] ''results.json'',
                     PrintTestResults ''results.json'']"
    by (simp add: roa_autograde_def Let_def)
  have sysid: "graded (snd (sysid_autograde s))
       = graded s @ [GradeOutput [''TestLinearSysid''] [names (snd (sysid_autograde s))]
                        ''results.json'',
                     PrintTestResults ''results.json'']"
    by (simp add: sysid_autograde_def Let_def)
  have 1: "fold (harness classes) (graded (snd (roa_autograde s))) fs ''results.json''
       = Some (map (\<lambda>(name, check). (name, check (names (snd (roa_autograde s)))))
                 (classes ''TestVanDerPol''))"
    unfolding roa by (rule harness_after_grading)
  have 2: "fold (harness classes) (graded (snd (sysid_autograde s))) fs ''results.json''
       = Some (map (\<lambda>(name, check). (name, check (names (snd (sysid_autograde s)))))
                 (classes ''TestLinearSysid''))"
    unfolding sysid by (rule harness_after_grading)
  have 3: "last (roa_notebook Solve lyap) = roa_autograde"
    "last (butlast (sysid_notebook nm Solve)) = sysid_autograde"
    "last (sysid_notebook nm Solve) = empty_cell" "empty_cell s = (None, s)"
    by (simp_all add: roa_notebook_def sysid_notebook_def empty_cell_def)
  have 4: "names (snd (roa_autograde s))
       = (names s)(''TestVanDerPol'' \<mapsto>
               PyObject ''underactuated.exercises.lyapunov.test_van_der_pol.TestVanDerPol'',
             ''Grader'' \<mapsto> PyObject ''underactuated.exercises.grader.Grader'')"
    "fst (roa_autograde s) = None"
    "names (snd (sysid_autograde s))
       = (names s)(''TestLinearSysid'' \<mapsto>
               PyObject ''underactuated.exercises.sysid.test_linear_sysid.TestLinearSysid'',
             ''Grader'' \<mapsto> PyObject ''underactuated.exercises.grader.Grader'')"
    "fst (sysid_autograde s) = None"
    by (simp_all add: roa_autograde_def sysid_autograde_def Let_def)
  have 5: "graded (snd (run_cells (limit_cycles_notebook Solve dircol_prog) s)) = graded s"
    by (rule limit_cycles_never_grade)
  from roa sysid 1 2 3 4 5 show ?thesis
    by simp
qed

theorem autograding_counterexample:
  "fst (run_cells (limit_cycles_notebook succeeding_solver MathematicalProgram) (fresh_kernel ()))
     = None
   \<and> graded (snd (run_cells (limit_cycles_notebook succeeding_solver MathematicalProgram)
        (fresh_kernel ()))) = []
   \<and> length (solved (snd (run_cells (limit_cycles_notebook succeeding_solver MathematicalProgram)
        (fresh_kernel ())))) = 1
   \<and> fold (harness (\<lambda>c. [(''check'', \<lambda>vars. True)]))
        (graded (snd (run_cells (limit_cycles_notebook succeeding_solver MathematicalProgram)
           (fresh_kernel ())))) Map.empty ''results.json'' = None"
  by (simp add: limit_cycles_notebook_def lc_imports_def lc_limit_cycle_def empty_cell_def
      vdp_limit_cycle_def Let_def succeeding_solver_def fresh_kernel_def)

text \<open>
  C10. A complete run of the system identification notebook does not depend on the
  state the random number generator was in before the run: the first cell seeds it with
  0. The data \<^verbatim>\<open>t, U, X\<close> that the notebook binds are what \<^verbatim>\<open>generate_data\<close> returns for
  the test system, the noise level \<open>1e-5\<close> and the generator as seeded with 0, and the
  generator is left in the state \<^verbatim>\<open>generate_data\<close> returns.
\<close>

theorem sysid_notebook_deterministic:
  "run_cells (sysid_notebook nm Solve) (fresh_kernel g1)
     = run_cells (sysid_notebook nm Solve) (fresh_kernel g2)
   \<and> (case generate_data nm sysid_A sysid_B sysid_C sysid_D (1 / 100000)
           (np_random_seed nm 0) of
        (Inl e, g') \<Rightarrow>
          fst (run_cells [sysid_setup nm, sysid_system, sysid_data nm] (fresh_kernel g1)) = Some e
      | (Inr (t, U, X), g') \<Rightarrow>
          fst (run_cells [sysid_setup nm, sysid_system, sysid_data nm] (fresh_kernel g1)) = None
          \<and> names (snd (run_cells [sysid_setup nm, sysid_system, sysid_data nm] (fresh_kernel g1))) ''t''
              = Some (PyVector t)
          \<and> names (snd (run_cells [sysid_setup nm, sysid_system, sysid_data nm] (fresh_kernel g1))) ''U''
              = Some (PyArray U)
          \<and> names (snd (run_cells [sysid_setup nm, sysid_system, sysid_data nm] (fresh_kernel g1))) ''X''
              = Some (PyArray X)
          \<and> rng (snd (run_cells [sysid_setup nm, sysid_system, sysid_data nm] (fresh_kernel g1))) = g')"
proof -
  have "sysid_setup nm (fresh_kernel g1) = sysid_setup nm (fresh_kernel g2)"
    by (simp add: sysid_setup_def fresh_kernel_def)
  then have 1: "run_cells (sysid_notebook nm Solve) (fresh_kernel g1)
     = run_cells (sysid_notebook nm Solve) (fresh_kernel g2)"
    by (simp add: sysid_notebook_def)
  have 2: "(case generate_data nm sysid_A sysid_B sysid_C sysid_D (1 / 100000)
           (np_random_seed nm 0) of
        (Inl e, g') \<Rightarrow>
          fst (run_cells [sysid_setup nm, sysid_system, sysid_data nm] (fresh_kernel g1)) = Some e
      | (Inr (t, U, X), g') \<Rightarrow>
          fst (run_cells [sysid_setup nm, sysid_system, sysid_data nm] (fresh_kernel g1)) = None
          \<and> names (snd (run_cells [sysid_setup nm, sysid_system, sysid_data nm] (fresh_kernel g1))) ''t''
              = Some (PyVector t)
          \<and> names (snd (run_cells [sysid_setup nm, sysid_system, sysid_data nm] (fresh_kernel g1))) ''U''
              = Some (PyArray U)
          \<and> names (snd (run_cells [sysid_setup nm, sysid_system, sysid_data nm] (fresh_kernel g1))) ''X''
              = Some (PyArray X)
          \<and> rng (snd (run_cells [sysid_setup nm, sysid_system, sysid_data nm] (fresh_kernel g1))) = g')"
    by (simp add: sysid_setup_def sysid_system_def sysid_data_def fresh_kernel_def raise_in_def
        lookup_array_def Let_def split: prod.splits sum.splits)
  from 1 2 show ?thesis by (rule conjI)
qed

section \<open>Solver failure and the Lyapunov function\<close>

text \<open>
  C3 (amended). Each call site hands one program to the solver, once, whatever the
  result. \<^verbatim>\<open>vdp_limit_cycle\<close> and, when it solves, the cell of Method 2 end with the
  assertion error of \<^verbatim>\<open>assert result.is_success()\<close> when the solver reports failure;
  \<^verbatim>\<open>is_verified\<close> returns the success flag; \<^verbatim>\<open>sysid_infnorm\<close> and \<^verbatim>\<open>sysid_1norm\<close> do not
  read the flag and return the zero matrices with the optimal cost the solver reports.
\<close>

theorem solver_failure_handling:
  assumes "shape P = (2, 2)"
  shows "vdp_limit_cycle Solve dircol_prog
      = (let prog = dircol_prog\<lparr>other_constraints := other_constraints dircol_prog @
                [EqualTimeIntervals, BoundingBox [0, 1 / 10] [0, 10] ''initial_state'',
                 LinearEq ''final_state'' ''initial_state'']\<rparr>
         in (if is_success (Solve prog) then Inr () else Inl (AssertionError ''result.is_success()''),
             [prog]))
    \<and> (1 < length (GetAllConstraints prog2) \<longrightarrow>
          solved (snd (method2_solve Solve rho_var prog2 s)) = solved s @ [prog2]
          \<and> (\<not> is_success (Solve prog2) \<longrightarrow>
                fst (method2_solve Solve rho_var prog2 s)
                  = Some (AssertionError ''result.is_success()'')))
    \<and> (\<exists>prog. is_verified Solve P rho = (Inr (is_success (Solve prog)), [prog]))
    \<and> sysid_infnorm Solve X U
        = ((zeros (fst (shape X)) (fst (shape X)), zeros (fst (shape X)) (fst (shape U)),
            get_optimal_cost (Solve MathematicalProgram)), [MathematicalProgram])
    \<and> sysid_1norm Solve X U
        = ((zeros (fst (shape X)) (fst (shape X)), zeros (fst (shape X)) (fst (shape U)),
            get_optimal_cost (Solve MathematicalProgram)), [MathematicalProgram])"
proof -
  have 1: "vdp_limit_cycle Solve dircol_prog
      = (let prog = dircol_prog\<lparr>other_constraints := other_constraints dircol_prog @
                [EqualTimeIntervals, BoundingBox [0, 1 / 10] [0, 10] ''initial_state'',
                 LinearEq ''final_state'' ''initial_state'']\<rparr>
         in (if is_success (Solve prog) then Inr () else Inl (AssertionError ''result.is_success()''),
             [prog]))"
    by (simp add: vdp_limit_cycle_def Let_def)
  have 2: "1 < length (GetAllConstraints prog2) \<longrightarrow>
          solved (snd (method2_solve Solve rho_var prog2 s)) = solved s @ [prog2]
          \<and> (\<not> is_success (Solve prog2) \<longrightarrow>
                fst (method2_solve Solve rho_var prog2 s)
                  = Some (AssertionError ''result.is_success()''))"
    by (simp add: method2_solve_def Let_def split: expr.splits)
  have 3: "\<exists>prog. is_verified Solve P rho = (Inr (is_success (Solve prog)), [prog])"
    using is_verified_2x2 [OF assms, of Solve rho] unfolding Let_def by blast
  have 4: "sysid_infnorm Solve X U
        = ((zeros (fst (shape X)) (fst (shape X)), zeros (fst (shape X)) (fst (shape U)),
            get_optimal_cost (Solve MathematicalProgram)), [MathematicalProgram])"
    by (simp add: sysid_infnorm_def Let_def)
  have 5: "sysid_1norm Solve X U
        = ((zeros (fst (shape X)) (fst (shape X)), zeros (fst (shape X)) (fst (shape U)),
            get_optimal_cost (Solve MathematicalProgram)), [MathematicalProgram])"
    by (simp add: sysid_1norm_def Let_def)
  from 1 2 3 4 5 show ?thesis by blast
qed

theorem solver_failure_handling_witness:
  "fst (vdp_limit_cycle failing_solver MathematicalProgram)
     = Inl (AssertionError ''result.is_success()'')
   \<and> length (snd (vdp_limit_cycle failing_solver MathematicalProgram)) = 1
   \<and> fst (method2_solve failing_solver (Cont (''rho'', 0))
        (AddSosConstraint (Num 0) MathematicalProgram) (fresh_kernel ()))
     = Some (AssertionError ''result.is_success()'')
   \<and> solved (snd (method2_solve failing_solver (Cont (''rho'', 0))
        (AddSosConstraint (Num 0) MathematicalProgram) (fresh_kernel ())))
     = [AddSosConstraint (Num 0) MathematicalProgram]
   \<and> fst (is_verified failing_solver (Array2 2 [[3 / 2, - (1 / 2)], [- (1 / 2), 1]]) 1)
     = Inr False"
proof -
  define P0 :: "real array2" where "P0 = Array2 2 [[3 / 2, - (1 / 2)], [- (1 / 2), 1]]"
  have sh: "shape P0 = (2, 2)" by (simp add: P0_def shape_def)
  have g: "1 < length (GetAllConstraints (AddSosConstraint (Num 0) MathematicalProgram))"
    by (simp add: GetAllConstraints_def AddSosConstraint_def)
  have f: "\<not> is_success (failing_solver p)" for p
    by (simp add: failing_solver_def)
  from solver_failure_handling [OF sh, where Solve = failing_solver
      and dircol_prog = MathematicalProgram and rho_var = "Cont (''rho'', 0)"
      and s = "fresh_kernel ()" and rho = 1 and X = "zeros 1 1" and U = "zeros 1 1"
      and ?prog2.0 = "AddSosConstraint (Num 0) MathematicalProgram"] g f
  show ?thesis
    unfolding P0_def Let_def by (auto simp: fresh_kernel_def)
qed

theorem solver_failure_counterexample:
  "\<not> is_success (failing_solver MathematicalProgram)
   \<and> sysid_infnorm failing_solver (Array2 2 [[1000, 1000]]) (Array2 2 [[0, 0]])
       = ((Array2 1 [[0]], Array2 1 [[0]], 7), [MathematicalProgram])
   \<and> sysid_1norm failing_solver (Array2 2 [[1000, 1000]]) (Array2 2 [[0, 0]])
       = ((Array2 1 [[0]], Array2 1 [[0]], 7), [MathematicalProgram])"
  by (simp add: failing_solver_def sysid_infnorm_def sysid_1norm_def Let_def shape_def zeros_def)

lemma lyapunov_solution_unique:
  assumes "wf_array P" "shape P = (2, 2)" "lyapunov_equation linearization_A P lyapunov_Q"
  shows "P = Array2 2 [[3 / 2, - (1 / 2)], [- (1 / 2), 1]]"
proof -
  obtain r0 r1 where r: "rows P = [r0, r1]" using assms(2) by (rule rows_of_shape_2)
  have nc: "ncols P = 2" using assms(2) by (simp add: shape_def)
  have "length r0 = 2" "length r1 = 2"
    using assms(1) r nc by (simp_all add: wf_array_def)
  then obtain a b c d where r0: "r0 = [a, b]" and r1: "r1 = [c, d]"
    by (auto simp: length_Suc_conv numeral_2_eq_2)
  have P: "P = Array2 2 [[a, b], [c, d]]"
    using r nc r0 r1 by (cases P) simp
  from assms(3) have eqs: "b + c = - 1" "d - a - b = 0" "d - a - c = 0" "- b - c - 2 * d = - 1"
    unfolding P lyapunov_equation_def linearization_A_def lyapunov_Q_def
    by (simp_all add: matmul_def exact_dot_def transpose_arr_def and_then_def elementwise_def
        bcast_dim_def broadcast_to_def stretch_def arr_neg_def upt_0_2)
  then have "a = 3 / 2" "b = - (1 / 2)" "c = - (1 / 2)" "d = 1"
    by linarith+
  with P show ?thesis by simp
qed

lemma lyapunov_solution_exists:
  "lyapunov_equation linearization_A (Array2 2 [[3 / 2, - (1 / 2)], [- (1 / 2), 1]]) lyapunov_Q"
  by (simp add: lyapunov_equation_def linearization_A_def lyapunov_Q_def matmul_def exact_dot_def
      transpose_arr_def and_then_def elementwise_def bcast_dim_def broadcast_to_def stretch_def
      arr_neg_def upt_0_2)

lemma f_at_jacobian:
  "DERIV (\<lambda>t. f_at t 0 ! 0) 0 :> 0" "DERIV (\<lambda>t. f_at 0 t ! 0) 0 :> - 1"
  "DERIV (\<lambda>t. f_at t 0 ! 1) 0 :> 1" "DERIV (\<lambda>t. f_at 0 t ! 1) 0 :> - 1"
  by (auto simp: f_at_eq_spec f_spec_def intro!: derivative_eq_intros)

text \<open>
  C7. In a run of the notebook, \<open>A\<close> is \<open>[[0, -1], [1, -1]]\<close>, \<open>Q\<close> is the 2-by-2 identity
  and \<open>P\<close> is what \<^verbatim>\<open>RealContinuousLyapunovEquation(A, Q)\<close> returns; when that is a 2-by-2
  matrix, the expressions \<^verbatim>\<open>V\<close> and \<^verbatim>\<open>V_dot\<close> bound in the cell of Method 2 have the values
  \<open>x\<^sup>T P x\<close> and \<open>2 x\<^sup>T P f(x)\<close>, and so have the ones in the constraint of \<^verbatim>\<open>is_verified\<close>.
  The dynamics are \<open>f(x) = (- x\<^sub>2, x\<^sub>1 + (x\<^sub>1\<^sup>2 - 1) x\<^sub>2)\<close>, and the partial derivatives of \<open>f\<close>
  at the origin are the entries of \<open>A\<close>. The equation \<open>A\<^sup>T P + P A = - Q\<close> has, among the
  2-by-2 matrices of reals, the one solution \<open>[[3/2, -1/2], [-1/2, 1]]\<close>, for which
  \<open>x\<^sup>T P x = 3/2 x\<^sub>1\<^sup>2 - x\<^sub>1 x\<^sub>2 + x\<^sub>2\<^sup>2\<close>; nothing is assumed about how close the matrix
  returned by the library is to it.
\<close>

theorem lyapunov_function_from_linearization:
  assumes "shape (lyap linearization_A lyapunov_Q) = (2, 2)"
  shows "(\<exists>V V_dot.
         names (snd (run_cells (roa_notebook Solve lyap) (fresh_kernel g))) ''A''
           = Some (PyArray linearization_A)
       \<and> names (snd (run_cells (roa_notebook Solve lyap) (fresh_kernel g))) ''Q''
           = Some (PyArray lyapunov_Q)
       \<and> names (snd (run_cells (roa_notebook Solve lyap) (fresh_kernel g))) ''P''
           = Some (PyArray (lyap linearization_A lyapunov_Q))
       \<and> names (snd (run_cells (roa_notebook Solve lyap) (fresh_kernel g))) ''V''
           = Some (PyExpr V)
       \<and> names (snd (run_cells (roa_notebook Solve lyap) (fresh_kernel g))) ''V_dot''
           = Some (PyExpr V_dot)
       \<and> (\<forall>xs cs ps. eval xs cs ps V
             = V_spec (lyap linearization_A lyapunov_Q) (xs 0) (xs 1))
       \<and> (\<forall>xs cs ps. eval xs cs ps V_dot
             = V_dot_spec (lyap linearization_A lyapunov_Q) (xs 0) (xs 1)))
    \<and> (\<exists>prog e. is_verified Solve (lyap linearization_A lyapunov_Q) rho
                   = (Inr (is_success (Solve prog)), [prog])
         \<and> sos_constraints prog = [e]
         \<and> (\<forall>xs cs ps. eval xs cs ps e =
               - V_dot_spec (lyap linearization_A lyapunov_Q) (xs 0) (xs 1)
               - ps 0 * (rho - V_spec (lyap linearization_A lyapunov_Q) (xs 0) (xs 1))
               - 1 / 1000 * (xs 0 * xs 0 + xs 1 * xs 1)))
    \<and> f_at x1 x2 = f_spec x1 x2
    \<and> DERIV (\<lambda>t. f_at t 0 ! 0) 0 :> rows linearization_A ! 0 ! 0
    \<and> DERIV (\<lambda>t. f_at 0 t ! 0) 0 :> rows linearization_A ! 0 ! 1
    \<and> DERIV (\<lambda>t. f_at t 0 ! 1) 0 :> rows linearization_A ! 1 ! 0
    \<and> DERIV (\<lambda>t. f_at 0 t ! 1) 0 :> rows linearization_A ! 1 ! 1
    \<and> linearization_A = Array2 2 [[0, - 1], [1, - 1]]
    \<and> lyapunov_Q = identity 2
    \<and> lyapunov_equation linearization_A (Array2 2 [[3 / 2, - (1 / 2)], [- (1 / 2), 1]]) lyapunov_Q
    \<and> (\<forall>P. wf_array P \<and> shape P = (2, 2) \<and> lyapunov_equation linearization_A P lyapunov_Q
          \<longrightarrow> P = Array2 2 [[3 / 2, - (1 / 2)], [- (1 / 2), 1]])
    \<and> V_spec (Array2 2 [[3 / 2, - (1 / 2)], [- (1 / 2), 1]]) x1 x2
        = 3 / 2 * x1\<^sup>2 - x1 * x2 + x2\<^sup>2"
proof -
  define P where "P = lyap linearization_A lyapunov_Q"
  have sh: "shape P = (2, 2)" using assms by (simp add: P_def)
  have V: "V_spec (Array2 2 [[3 / 2, - (1 / 2)], [- (1 / 2), 1]]) x1 x2
        = 3 / 2 * x1\<^sup>2 - x1 * x2 + x2\<^sup>2"
    by (simp add: V_spec_def upt_0_2 power2_eq_square algebra_simps)
  obtain ns V' V_dot' where
    "run_cells (roa_notebook Solve lyap) (fresh_kernel g)
        = (None, \<lparr>names = ns, solved = [],
                  graded = [GradeOutput [''TestVanDerPol''] [ns] ''results.json'',
                            PrintTestResults ''results.json''],
                  rng = g\<rparr>)"
    "ns ''A'' = Some (PyArray linearization_A)" "ns ''Q'' = Some (PyArray lyapunov_Q)"
    "ns ''P'' = Some (PyArray P)"
    "ns ''V'' = Some (PyExpr V')" "ns ''V_dot'' = Some (PyExpr V_dot')"
    "\<And>xs cs ps. eval xs cs ps V' = V_spec P (xs 0) (xs 1)"
    "\<And>xs cs ps. eval xs cs ps V_dot' = V_dot_spec P (xs 0) (xs 1)"
    using roa_run [where lyap = lyap and Solve = Solve and g = g] assms
    unfolding P_def by blast
  then have nb: "\<exists>V V_dot.
         names (snd (run_cells (roa_notebook Solve lyap) (fresh_kernel g))) ''A''
           = Some (PyArray linearization_A)
       \<and> names (snd (run_cells (roa_notebook Solve lyap) (fresh_kernel g))) ''Q''
           = Some (PyArray lyapunov_Q)
       \<and> names (snd (run_cells (roa_notebook Solve lyap) (fresh_kernel g))) ''P''
           = Some (PyArray P)
       \<and> names (snd (run_cells (roa_notebook Solve lyap) (fresh_kernel g))) ''V''
           = Some (PyExpr V)
       \<and> names (snd (run_cells (roa_notebook Solve lyap) (fresh_kernel g))) ''V_dot''
           = Some (PyExpr V_dot)
       \<and> (\<forall>xs cs ps. eval xs cs ps V = V_spec P (xs 0) (xs 1))
       \<and> (\<forall>xs cs ps. eval xs cs ps V_dot = V_dot_spec P (xs 0) (xs 1))"
    by auto
  have iv: "\<exists>prog e. is_verified Solve P rho = (Inr (is_success (Solve prog)), [prog])
         \<and> sos_constraints prog = [e]
         \<and> (\<forall>xs cs ps. eval xs cs ps e =
               - V_dot_spec P (xs 0) (xs 1) - ps 0 * (rho - V_spec P (xs 0) (xs 1))
               - 1 / 1000 * (xs 0 * xs 0 + xs 1 * xs 1))"
    using is_verified_2x2 [OF sh, of Solve rho] unfolding Let_def
    by (metis prog.select_convs(4))
  have jac: "DERIV (\<lambda>t. f_at t 0 ! 0) 0 :> rows linearization_A ! 0 ! 0"
    "DERIV (\<lambda>t. f_at 0 t ! 0) 0 :> rows linearization_A ! 0 ! 1"
    "DERIV (\<lambda>t. f_at t 0 ! 1) 0 :> rows linearization_A ! 1 ! 0"
    "DERIV (\<lambda>t. f_at 0 t ! 1) 0 :> rows linearization_A ! 1 ! 1"
    using f_at_jacobian by (simp_all add: linearization_A_def)
  have AQ: "linearization_A = Array2 2 [[0, - 1], [1, - 1]]" "lyapunov_Q = identity 2"
    by (simp_all add: linearization_A_def lyapunov_Q_def identity_def upt_0_2)
  have uniq: "\<forall>P. wf_array P \<and> shape P = (2, 2) \<and> lyapunov_equation linearization_A P lyapunov_Q
          \<longrightarrow> P = Array2 2 [[3 / 2, - (1 / 2)], [- (1 / 2), 1]]"
    using lyapunov_solution_unique by blast
  from V nb iv jac AQ uniq lyapunov_solution_exists f_at_eq_spec [of x1 x2] show ?thesis
    unfolding P_def by blast
qed

theorem lyapunov_function_from_linearization_witness:
  "shape (Array2 2 [[3 / 2 + 1 / 4503599627370496, - (1 / 2)], [- (1 / 2), 1 :: real]]) = (2, 2)
   \<and> \<not> lyapunov_equation linearization_A
         (Array2 2 [[3 / 2 + 1 / 4503599627370496, - (1 / 2)], [- (1 / 2), 1]]) lyapunov_Q
   \<and> names (snd (run_cells
        (roa_notebook succeeding_solver
           (\<lambda>A Q. Array2 2 [[3 / 2 + 1 / 4503599627370496, - (1 / 2)], [- (1 / 2), 1]]))
        (fresh_kernel ()))) ''P''
       = Some (PyArray (Array2 2 [[3 / 2 + 1 / 4503599627370496, - (1 / 2)], [- (1 / 2), 1]]))
   \<and> wf_array (Array2 2 [[3 / 2, - (1 / 2)], [- (1 / 2), 1 :: real]])
   \<and> shape (Array2 2 [[3 / 2, - (1 / 2)], [- (1 / 2), 1 :: real]]) = (2, 2)
   \<and> lyapunov_equation linearization_A (Array2 2 [[3 / 2, - (1 / 2)], [- (1 / 2), 1]]) lyapunov_Q
   \<and> V_spec (Array2 2 [[3 / 2, - (1 / 2)], [- (1 / 2), 1]]) 1 2 = 7 / 2"
proof -
  define P1 :: "real array2"
    where "P1 = Array2 2 [[3 / 2 + 1 / 4503599627370496, - (1 / 2)], [- (1 / 2), 1]]"
  define lyap1 :: "real array2 \<Rightarrow> real array2 \<Rightarrow> real array2" where "lyap1 = (\<lambda>A Q. P1)"
  have sh: "shape (lyap1 linearization_A lyapunov_Q) = (2, 2)"
    by (simp add: lyap1_def P1_def shape_def)
  have wf1: "wf_array P1" by (simp add: P1_def wf_array_def)
  note inst = lyapunov_function_from_linearization [where lyap = lyap1
      and Solve = succeeding_solver and g = "()" and ?x1.0 = 1 and ?x2.0 = 2 and rho = 1, OF sh]
  from inst have uniq: "wf_array P \<and> shape P = (2, 2) \<and> lyapunov_equation linearization_A P lyapunov_Q
          \<longrightarrow> P = Array2 2 [[3 / 2, - (1 / 2)], [- (1 / 2), 1]]" for P
    by blast
  have neq: "P1 \<noteq> Array2 2 [[3 / 2, - (1 / 2)], [- (1 / 2), 1]]"
    by (simp add: P1_def)
  from uniq [of P1] wf1 sh neq have 1: "\<not> lyapunov_equation linearization_A P1 lyapunov_Q"
    by (auto simp: lyap1_def)
  from inst have 2: "names (snd (run_cells (roa_notebook succeeding_solver lyap1) (fresh_kernel ())))
      ''P'' = Some (PyArray P1)"
    by (auto simp: lyap1_def)
  from inst have 3: "lyapunov_equation linearization_A
      (Array2 2 [[3 / 2, - (1 / 2)], [- (1 / 2), 1]]) lyapunov_Q"
    and 4: "V_spec (Array2 2 [[3 / 2, - (1 / 2)], [- (1 / 2), 1]]) 1 2 = 7 / 2"
    by auto
  have 5: "wf_array (Array2 2 [[3 / 2, - (1 / 2)], [- (1 / 2), 1 :: real]])"
    "shape (Array2 2 [[3 / 2, - (1 / 2)], [- (1 / 2), 1 :: real]]) = (2, 2)"
    by (simp_all add: wf_array_def shape_def)
  from sh 1 2 3 4 5 show ?thesis
    unfolding lyap1_def P1_def by simp
qed


end
